theory Spec2Isabelle
  imports Main
begin

text \<open>
  A shallow embedding of the Baasix MCP server: the token lifecycle (\<open>getAuthToken\<close>), the
  HTTP proxy (\<open>baasixRequest\<close>), the tool handlers, the dispatcher of tool calls, and the
  loading and validation of the configuration. Asynchronous functions are modelled by
  explicit state passing: a function takes the state of the module and of the world and
  returns its result, or the error it throws, together with the new state. The backend,
  the host and the built-ins of the runtime are parameters.
\<close>

section \<open>JavaScript values and runtime errors\<close>

text \<open>
  The server is a Node.js module. Values that cross its boundary (tool arguments,
  response bodies) are JSON values; \<open>Undefined\<close> stands for an absent property.
  Numbers are restricted to integers (that JavaScript prints in full): no handler
  computes with them, they are only converted to strings or forwarded.
\<close>

datatype jsval =
    Undefined
  | Null
  | JBool bool
  | JNum int
  | JStr string
  | JArr "jsval list"
  | JObj "(string \<times> jsval) list"

text \<open>
  Errors raised by the JavaScript engine itself (\<open>TypeError\<close>, and \<open>RangeError\<close> for
  an invalid date).
\<close>

datatype engine_error =
    CannotDestructure string
  | CannotReadProperty string string
  | NotAFunction string
  | CannotConvertToPrimitive
  | InvalidTimeValue

text \<open>
  What the module's functions and handlers throw: \<open>new Error(message)\<close> or an error of
  the engine.
\<close>

datatype js_error =
    Error string
  | EngineError engine_error

text \<open>The codes of the protocol SDK's \<open>ErrorCode\<close> that the specification names.\<close>

datatype ErrorCode = MethodNotFound | InvalidParams | InternalError

text \<open>
  What the request handler of \<open>CallToolRequestSchema\<close> throws: inside its \<open>try\<close> a handler's
  error or the \<open>McpError\<close> of the \<open>default\<close> case, out of its \<open>catch\<close> an \<open>McpError\<close>.
\<close>

datatype thrown =
    Plain js_error
  | McpError ErrorCode string

text \<open>\<open>error.message\<close>; for an error of the engine, in the wording of V8 (Node.js).\<close>

definition quoted :: "string \<Rightarrow> string" where
  "quoted s = CHR 0x27 # s @ [CHR 0x27]"

fun engine_message :: "engine_error \<Rightarrow> string" where
  "engine_message (CannotDestructure p) =
     ''Cannot destructure property '' @ quoted p @ '' of '' @ quoted ''args'' @ '' as it is undefined.''"
| "engine_message (CannotReadProperty v p) =
     ''Cannot read properties of '' @ v @ '' (reading '' @ quoted p @ '')''"
| "engine_message (NotAFunction f) = f @ '' is not a function''"
| "engine_message CannotConvertToPrimitive = ''Cannot convert object to primitive value''"
| "engine_message InvalidTimeValue = ''Invalid time value''"

fun js_message :: "js_error \<Rightarrow> string" where
  "js_message (Error m) = m"
| "js_message (EngineError e) = engine_message e"

text \<open>JavaScript truthiness of a string that may be undefined, and of a number that may be null.\<close>

fun truthy :: "string option \<Rightarrow> bool" where
  "truthy None = False"
| "truthy (Some s) = (s \<noteq> [])"

fun truthy_num :: "nat option \<Rightarrow> bool" where
  "truthy_num None = False"
| "truthy_num (Some n) = (n \<noteq> 0)"

section \<open>Module constants and authentication state\<close>

text \<open>
  \<open>BAASIX_URL\<close>, \<open>BAASIX_AUTH_TOKEN\<close>, \<open>BAASIX_EMAIL\<close>, \<open>BAASIX_PASSWORD\<close>: the constants
  the module reads from the loaded configuration. A configuration value is a string or
  is absent.
\<close>

record settings =
  BAASIX_URL :: string
  BAASIX_AUTH_TOKEN :: "string option"
  BAASIX_EMAIL :: "string option"
  BAASIX_PASSWORD :: "string option"

text \<open>
  An outbound HTTP call, as handed to axios: the login exchange
  \<open>axios.post(`${BAASIX_URL}/auth/login`, {email, password})\<close>, or a proxied request
  \<open>axios(endpoint, config)\<close> with its base URL, method, body and \<open>Authorization\<close> header
  (the \<open>Content-Type\<close> header is always \<open>application/json\<close>).
\<close>

datatype http_call =
    LoginCall string "string option" "string option"
  | ApiCall string string "string option" jsval "string option"

text \<open>
  What axios reports when it rejects: \<open>error.response?.status\<close>,
  \<open>error.response?.data?.message\<close> and \<open>error.message\<close>. A failure without a response
  (network failure, or a \<open>TypeError\<close> on a body without data) has no status.
\<close>

record axios_error =
  status :: "nat option"
  data_message :: "string option"
  message :: string

datatype 'a axios_result = Resolved 'a | Rejected axios_error

text \<open>
  The backend is outside the program: it is a parameter. The reply to a call may depend
  on the call and on the number of calls made before it. \<open>login_reply\<close> gives
  \<open>response.data.token\<close> of a login exchange (a string, or absent), \<open>api_reply\<close> gives
  \<open>response.data\<close> of a proxied request, \<open>elapsed\<close> the milliseconds the call takes.
\<close>

record backend =
  login_reply :: "nat \<Rightarrow> http_call \<Rightarrow> string option axios_result"
  api_reply :: "nat \<Rightarrow> http_call \<Rightarrow> jsval axios_result"
  elapsed :: "nat \<Rightarrow> nat"

text \<open>
  The mutable state: the module variables \<open>authToken\<close> and \<open>authExpiry\<close> (both initially
  \<open>null\<close>), the clock read by \<open>Date.now()\<close> (milliseconds since the epoch), and the log
  of outbound HTTP calls, oldest first.
\<close>

record world =
  authToken :: "string option"
  authExpiry :: "nat option"
  now :: nat
  calls :: "http_call list"

definition initial_world :: "nat \<Rightarrow> world" where
  "initial_world t = \<lparr>authToken = None, authExpiry = None, now = t, calls = []\<rparr>"

text \<open>\<open>error.response?.data?.message || error.message\<close>\<close>

definition upstream_message :: "axios_error \<Rightarrow> string" where
  "upstream_message e =
     (case data_message e of
        Some m \<Rightarrow> (if m \<noteq> [] then m else message e)
      | None \<Rightarrow> message e)"

text \<open>One awaited axios call: the call is logged and the clock advances.\<close>

definition performed :: "backend \<Rightarrow> http_call \<Rightarrow> world \<Rightarrow> world" where
  "performed b c w = w\<lparr>now := now w + elapsed b (length (calls w)), calls := calls w @ [c]\<rparr>"

definition axios_post_login :: "backend \<Rightarrow> settings \<Rightarrow> world \<Rightarrow> string option axios_result \<times> world" where
  "axios_post_login b cfg w =
     (let c = LoginCall (BAASIX_URL cfg @ ''/auth/login'') (BAASIX_EMAIL cfg) (BAASIX_PASSWORD cfg)
      in (login_reply b (length (calls w)) c, performed b c w))"

definition axios :: "backend \<Rightarrow> http_call \<Rightarrow> world \<Rightarrow> jsval axios_result \<times> world" where
  "axios b c w = (api_reply b (length (calls w)) c, performed b c w)"

section \<open>getAuthToken\<close>

definition no_auth_method :: string where
  "no_auth_method =
     ''No authentication method available. Please provide BAASIX_AUTH_TOKEN or BAASIX_EMAIL/BAASIX_PASSWORD''"

text \<open>\<open>authToken && authExpiry && Date.now() < authExpiry\<close>\<close>

definition cache_valid :: "world \<Rightarrow> bool" where
  "cache_valid w =
     (truthy (authToken w) \<and> truthy_num (authExpiry w) \<and>
      (case authExpiry w of Some e \<Rightarrow> now w < e | None \<Rightarrow> False))"

definition getAuthToken :: "settings \<Rightarrow> backend \<Rightarrow> world \<Rightarrow> (js_error + string option) \<times> world" where
  "getAuthToken cfg b w =
     (if truthy (BAASIX_AUTH_TOKEN cfg) then (Inr (BAASIX_AUTH_TOKEN cfg), w)
      else if cache_valid w then (Inr (authToken w), w)
      else if truthy (BAASIX_EMAIL cfg) \<and> truthy (BAASIX_PASSWORD cfg) then
        (case axios_post_login b cfg w of
           (Resolved tok, w') \<Rightarrow>
             (Inr tok, w'\<lparr>authToken := tok, authExpiry := Some (now w' + 60 * 60 * 1000)\<rparr>)
         | (Rejected e, w') \<Rightarrow>
             (Inl (Error (''Authentication failed: '' @ upstream_message e)), w'))
      else (Inl (Error no_auth_method), w))"

text \<open>The login exchange that \<open>getAuthToken\<close> issues.\<close>

definition login_call :: "settings \<Rightarrow> http_call" where
  "login_call cfg = LoginCall (BAASIX_URL cfg @ ''/auth/login'') (BAASIX_EMAIL cfg) (BAASIX_PASSWORD cfg)"

section \<open>baasixRequest\<close>

text \<open>
  The \<open>options\<close> a handler passes: \<open>method\<close> (here \<open>http_method\<close>, absent for a GET) and
  \<open>data\<close>. No handler passes \<open>headers\<close>, so the headers of a call are \<open>Content-Type\<close> and,
  for a truthy token, \<open>Authorization: Bearer <token>\<close>.
\<close>

record request_options =
  http_method :: "string option"
  data :: jsval

text \<open>\<open>...(token && { 'Authorization': `Bearer ${token}` })\<close>\<close>

definition bearer :: "string option \<Rightarrow> string option" where
  "bearer token =
     (case token of
        Some t \<Rightarrow> (if t \<noteq> [] then Some (''Bearer '' @ t) else None)
      | None \<Rightarrow> None)"

definition api_call :: "settings \<Rightarrow> string \<Rightarrow> request_options \<Rightarrow> string option \<Rightarrow> http_call" where
  "api_call cfg endpoint opts authorization =
     ApiCall (BAASIX_URL cfg) endpoint (http_method opts) (data opts) authorization"

definition api_error :: "string \<Rightarrow> js_error" where
  "api_error m = Error (''Baasix API Error: '' @ m)"

definition baasixRequest ::
  "settings \<Rightarrow> backend \<Rightarrow> string \<Rightarrow> request_options \<Rightarrow> world \<Rightarrow> (js_error + jsval) \<times> world" where
  "baasixRequest cfg b endpoint opts w =
     (case getAuthToken cfg b w of
        (Inl err, w1) \<Rightarrow> (Inl err, w1)
      | (Inr token, w1) \<Rightarrow>
          (case axios b (api_call cfg endpoint opts (bearer token)) w1 of
             (Resolved d, w2) \<Rightarrow> (Inr d, w2)
           | (Rejected e, w2) \<Rightarrow>
               if status e = Some 401 \<and> truthy (authToken w2) \<and> \<not> truthy (BAASIX_AUTH_TOKEN cfg)
               then
                 (case getAuthToken cfg b (w2\<lparr>authToken := None, authExpiry := None\<rparr>) of
                    (Inl retryError, w3) \<Rightarrow> (Inl (api_error (js_message retryError)), w3)
                  | (Inr newToken, w3) \<Rightarrow>
                      if truthy newToken then
                        (case axios b (api_call cfg endpoint opts (bearer newToken)) w3 of
                           (Resolved d, w4) \<Rightarrow> (Inr d, w4)
                         | (Rejected retryError, w4) \<Rightarrow>
                             (Inl (api_error (upstream_message retryError)), w4))
                      else (Inl (api_error (upstream_message e)), w3))
               else (Inl (api_error (upstream_message e)), w2)))"

section \<open>Conversions of JavaScript values\<close>

fun js_truthy :: "jsval \<Rightarrow> bool" where
  "js_truthy Undefined = False"
| "js_truthy Null = False"
| "js_truthy (JBool b) = b"
| "js_truthy (JNum n) = (n \<noteq> 0)"
| "js_truthy (JStr s) = (s \<noteq> [])"
| "js_truthy (JArr xs) = True"
| "js_truthy (JObj fs) = True"

definition digit_char :: "nat \<Rightarrow> char" where
  "digit_char d = ''0123456789'' ! d"

fun string_of_nat :: "nat \<Rightarrow> string" where
  "string_of_nat n = (if n < 10 then [digit_char n] else string_of_nat (n div 10) @ [digit_char (n mod 10)])"

definition string_of_int :: "int \<Rightarrow> string" where
  "string_of_int i = (if i < 0 then CHR ''-'' # string_of_nat (nat (- i)) else string_of_nat (nat i))"

text \<open>Whether an object has an own property of that name.\<close>

definition has_own :: "(string \<times> jsval) list \<Rightarrow> string \<Rightarrow> bool" where
  "has_own fs k = (map_of fs k \<noteq> None)"

text \<open>
  The string conversion of a template literal and of \<open>URLSearchParams.append\<close>. An array
  is joined with commas, \<open>null\<close> and \<open>undefined\<close> elements giving the empty string. An
  object gives \<open>[object Object]\<close> unless an own property hides \<open>toString\<close>: a JSON value
  is never callable, so the conversion then throws a \<open>TypeError\<close>.
\<close>

fun ToString :: "jsval \<Rightarrow> js_error + string"
  and join_elements :: "jsval list \<Rightarrow> js_error + string" where
  "ToString Undefined = Inr ''undefined''"
| "ToString Null = Inr ''null''"
| "ToString (JBool b) = Inr (if b then ''true'' else ''false'')"
| "ToString (JNum n) = Inr (string_of_int n)"
| "ToString (JStr s) = Inr s"
| "ToString (JArr xs) = join_elements xs"
| "ToString (JObj fs) =
     (if has_own fs ''toString'' then Inl (EngineError CannotConvertToPrimitive)
      else Inr ''[object Object]'')"
| "join_elements [] = Inr []"
| "join_elements (x # xs) =
     (case (if x = Undefined \<or> x = Null then Inr [] else ToString x) of
        Inl e \<Rightarrow> Inl e
      | Inr s \<Rightarrow>
          (if xs = [] then Inr s
           else (case join_elements xs of Inl e \<Rightarrow> Inl e | Inr r \<Rightarrow> Inr (s @ '','' @ r))))"

text \<open>
  The method call \<open>v.toString()\<close>, on a value named \<open>name\<close> in the source: \<open>null\<close> and
  \<open>undefined\<close> have no properties, and an own property \<open>toString\<close> of an object is not a
  function.
\<close>

definition call_toString :: "string \<Rightarrow> jsval \<Rightarrow> js_error + string" where
  "call_toString name v =
     (case v of
        Undefined \<Rightarrow> Inl (EngineError (CannotReadProperty ''undefined'' ''toString''))
      | Null \<Rightarrow> Inl (EngineError (CannotReadProperty ''null'' ''toString''))
      | JObj fs \<Rightarrow>
          (if has_own fs ''toString'' then Inl (EngineError (NotAFunction (name @ ''.toString'')))
           else Inr ''[object Object]'')
      | _ \<Rightarrow> ToString v)"

text \<open>The method call \<open>fields.join(',')\<close> on a truthy value: only an array has \<open>join\<close>.\<close>

definition call_join :: "string \<Rightarrow> jsval \<Rightarrow> js_error + string" where
  "call_join name v =
     (case v of
        JArr xs \<Rightarrow> join_elements xs
      | _ \<Rightarrow> Inl (EngineError (NotAFunction (name @ ''.join''))))"

text \<open>Sequencing of two steps of which the first may throw.\<close>

definition and_then :: "'e + 'a \<Rightarrow> ('a \<Rightarrow> 'e + 'b) \<Rightarrow> 'e + 'b" where
  "and_then r f = (case r of Inl e \<Rightarrow> Inl e | Inr x \<Rightarrow> f x)"

text \<open>
  The built-ins of the runtime whose results the server only forwards:
  \<open>JSON.stringify(v)\<close> and \<open>JSON.stringify(v, null, 2)\<close> on a value other than
  \<open>undefined\<close>, the serialisation of a \<open>URLSearchParams\<close>, \<open>toISOString\<close> of a valid date,
  and the figures of \<open>process\<close>.
\<close>

record runtime =
  JSON_stringify :: "jsval \<Rightarrow> string"
  JSON_stringify_2 :: "jsval \<Rightarrow> string"
  URLSearchParams_toString :: "(string \<times> string) list \<Rightarrow> string"
  iso_string :: "nat \<Rightarrow> string"
  process_uptime :: "nat \<Rightarrow> jsval"
  process_memoryUsage :: "nat \<Rightarrow> jsval"
  process_version :: string

text \<open>\<open>new Date(t).toISOString()\<close>: a \<open>RangeError\<close> beyond the range of time values.\<close>

definition Date_toISOString :: "runtime \<Rightarrow> nat \<Rightarrow> js_error + string" where
  "Date_toISOString rt t =
     (if t \<le> 8640000000000000 then Inr (iso_string rt t) else Inl (EngineError InvalidTimeValue))"

section \<open>Tool arguments and results\<close>

text \<open>
  The \<open>arguments\<close> of a tool call: an object, given by its properties (keys distinct),
  or absent.
\<close>

type_synonym arguments = "(string \<times> jsval) list option"

text \<open>
  \<open>const { first, ... } = args\<close>: destructuring \<open>undefined\<close> throws a \<open>TypeError\<close> that
  names the first property of the pattern.
\<close>

definition destructure :: "string \<Rightarrow> arguments \<Rightarrow> js_error + (string \<times> jsval) list" where
  "destructure first args =
     (case args of
        None \<Rightarrow> Inl (EngineError (CannotDestructure first))
      | Some fs \<Rightarrow> Inr fs)"

definition property :: "(string \<times> jsval) list \<Rightarrow> string \<Rightarrow> jsval" where
  "property fs k = (case map_of fs k of Some v \<Rightarrow> v | None \<Rightarrow> Undefined)"

text \<open>A default of a destructuring pattern (\<open>page = 1\<close>) applies to \<open>undefined\<close> only.\<close>

definition with_default :: "jsval \<Rightarrow> jsval \<Rightarrow> jsval" where
  "with_default v d = (if v = Undefined then d else v)"

text \<open>The object literal \<open>{ k1, k2, ... }\<close> of destructured properties.\<close>

definition pick :: "(string \<times> jsval) list \<Rightarrow> string list \<Rightarrow> (string \<times> jsval) list" where
  "pick fs ks = map (\<lambda>k. (k, property fs k)) ks"

text \<open>
  The calls \<open>params.append(key, value)\<close> of a handler, in order, each with its guard
  (\<open>True\<close> when unguarded); the first conversion that throws ends the handler.
\<close>

fun build_params :: "(bool \<times> string \<times> (js_error + string)) list \<Rightarrow> js_error + (string \<times> string) list" where
  "build_params [] = Inr []"
| "build_params ((guard, key, v) # rest) =
     (if guard then
        (case v of
           Inl e \<Rightarrow> Inl e
         | Inr s \<Rightarrow> (case build_params rest of Inl e \<Rightarrow> Inl e | Inr ps \<Rightarrow> Inr ((key, s) # ps)))
      else build_params rest)"

definition no_options :: request_options where
  "no_options = \<lparr>http_method = None, data = Undefined\<rparr>"

definition with_method :: "string \<Rightarrow> request_options" where
  "with_method m = \<lparr>http_method = Some m, data = Undefined\<rparr>"

definition with_data :: "string \<Rightarrow> jsval \<Rightarrow> request_options" where
  "with_data m d = \<lparr>http_method = Some m, data = d\<rparr>"

text \<open>The result of a tool: \<open>{ content: [{ type: 'text', text: ... }] }\<close>.\<close>

record content_item =
  item_type :: string
  item_text :: "string option"

record tool_result =
  content :: "content_item list"

text \<open>\<open>JSON.stringify(v, null, 2)\<close>, which is \<open>undefined\<close> for \<open>undefined\<close>.\<close>

definition stringify_2 :: "runtime \<Rightarrow> jsval \<Rightarrow> string option" where
  "stringify_2 rt v = (if v = Undefined then None else Some (JSON_stringify_2 rt v))"

definition text_result :: "runtime \<Rightarrow> jsval \<Rightarrow> tool_result" where
  "text_result rt v = \<lparr>content = [\<lparr>item_type = ''text'', item_text = stringify_2 rt v\<rparr>]\<rparr>"

text \<open>
  The shape of every handler but three: build the request from the arguments, await
  \<open>baasixRequest\<close>, wrap the response body.
\<close>

definition via_request ::
  "runtime \<Rightarrow> settings \<Rightarrow> backend \<Rightarrow> js_error + string \<times> request_options \<Rightarrow> world
     \<Rightarrow> (js_error + tool_result) \<times> world" where
  "via_request rt cfg b request w =
     (case request of
        Inl e \<Rightarrow> (Inl e, w)
      | Inr (endpoint, opts) \<Rightarrow>
          (case baasixRequest cfg b endpoint opts w of
             (Inl e, w') \<Rightarrow> (Inl e, w')
           | (Inr d, w') \<Rightarrow> (Inr (text_result rt d), w')))"

text \<open>\<open>x || d\<close> on a string that may be undefined.\<close>

definition or_else :: "string option \<Rightarrow> string \<Rightarrow> string" where
  "or_else x d = (case x of Some s \<Rightarrow> (if s \<noteq> [] then s else d) | None \<Rightarrow> d)"

type_synonym handler =
  "runtime \<Rightarrow> settings \<Rightarrow> backend \<Rightarrow> arguments \<Rightarrow> world \<Rightarrow> (js_error + tool_result) \<times> world"

section \<open>Schema management handlers\<close>

definition handleListSchemas :: handler where
  "handleListSchemas rt cfg b args w = via_request rt cfg b
     (and_then (destructure ''search'' args) (\<lambda>a.
      and_then (build_params
         [(js_truthy (property a ''search''), ''search'', ToString (property a ''search'')),
          (property a ''page'' \<noteq> Undefined, ''page'', call_toString ''page'' (property a ''page'')),
          (property a ''limit'' \<noteq> Undefined, ''limit'', call_toString ''limit'' (property a ''limit'')),
          (True, ''sort'', ToString (with_default (property a ''sort'') (JStr ''collectionName:asc'')))]) (\<lambda>params.
      Inr (''/schemas?'' @ URLSearchParams_toString rt params, no_options)))) w"

definition handleGetSchema :: handler where
  "handleGetSchema rt cfg b args w = via_request rt cfg b
     (and_then (destructure ''collection'' args) (\<lambda>a.
      and_then (ToString (property a ''collection'')) (\<lambda>collection.
      Inr (''/schemas/'' @ collection, no_options)))) w"

definition handleCreateSchema :: handler where
  "handleCreateSchema rt cfg b args w = via_request rt cfg b
     (and_then (destructure ''collection'' args) (\<lambda>a.
      and_then (ToString (property a ''collection'')) (\<lambda>collection.
      Inr (''/schemas/'' @ collection, with_data ''POST'' (property a ''schema''))))) w"

definition handleUpdateSchema :: handler where
  "handleUpdateSchema rt cfg b args w = via_request rt cfg b
     (and_then (destructure ''collection'' args) (\<lambda>a.
      and_then (ToString (property a ''collection'')) (\<lambda>collection.
      Inr (''/schemas/'' @ collection, with_data ''PUT'' (property a ''schema''))))) w"

definition handleDeleteSchema :: handler where
  "handleDeleteSchema rt cfg b args w = via_request rt cfg b
     (and_then (destructure ''collection'' args) (\<lambda>a.
      and_then (ToString (property a ''collection'')) (\<lambda>collection.
      Inr (''/schemas/'' @ collection, with_method ''DELETE'')))) w"

definition handleAddIndex :: handler where
  "handleAddIndex rt cfg b args w = via_request rt cfg b
     (and_then (destructure ''collection'' args) (\<lambda>a.
      and_then (ToString (property a ''collection'')) (\<lambda>collection.
      Inr (''/schemas/'' @ collection @ ''/indexes'', with_data ''POST'' (property a ''indexDefinition''))))) w"

definition handleRemoveIndex :: handler where
  "handleRemoveIndex rt cfg b args w = via_request rt cfg b
     (and_then (destructure ''collection'' args) (\<lambda>a.
      and_then (ToString (property a ''collection'')) (\<lambda>collection.
      and_then (ToString (property a ''indexName'')) (\<lambda>indexName.
      Inr (''/schemas/'' @ collection @ ''/indexes/'' @ indexName, with_method ''DELETE''))))) w"

definition handleCreateRelationship :: handler where
  "handleCreateRelationship rt cfg b args w = via_request rt cfg b
     (and_then (destructure ''sourceCollection'' args) (\<lambda>a.
      and_then (ToString (property a ''sourceCollection'')) (\<lambda>sourceCollection.
      Inr (''/schemas/'' @ sourceCollection @ ''/relationships'',
           with_data ''POST'' (property a ''relationshipData''))))) w"

definition handleUpdateRelationship :: handler where
  "handleUpdateRelationship rt cfg b args w = via_request rt cfg b
     (and_then (destructure ''sourceCollection'' args) (\<lambda>a.
      and_then (ToString (property a ''sourceCollection'')) (\<lambda>sourceCollection.
      and_then (ToString (property a ''fieldName'')) (\<lambda>fieldName.
      Inr (''/schemas/'' @ sourceCollection @ ''/relationships/'' @ fieldName,
           with_data ''PATCH'' (property a ''updateData'')))))) w"

definition handleDeleteRelationship :: handler where
  "handleDeleteRelationship rt cfg b args w = via_request rt cfg b
     (and_then (destructure ''sourceCollection'' args) (\<lambda>a.
      and_then (ToString (property a ''sourceCollection'')) (\<lambda>sourceCollection.
      and_then (ToString (property a ''fieldName'')) (\<lambda>fieldName.
      Inr (''/schemas/'' @ sourceCollection @ ''/relationships/'' @ fieldName,
           with_method ''DELETE''))))) w"

definition handleExportSchemas :: handler where
  "handleExportSchemas rt cfg b args w = via_request rt cfg b (Inr (''/schemas-export'', no_options)) w"

definition handleImportSchemas :: handler where
  "handleImportSchemas rt cfg b args w = via_request rt cfg b
     (and_then (destructure ''schemas'' args) (\<lambda>a.
      Inr (''/schemas-import'', with_data ''POST'' (property a ''schemas'')))) w"

section \<open>Item and file management handlers\<close>

definition handleListItems :: handler where
  "handleListItems rt cfg b args w = via_request rt cfg b
     (and_then (destructure ''collection'' args) (\<lambda>a.
      and_then (build_params
         [(js_truthy (property a ''filter''), ''filter'', Inr (JSON_stringify rt (property a ''filter''))),
          (js_truthy (property a ''sort''), ''sort'', ToString (property a ''sort'')),
          (True, ''page'', call_toString ''page'' (with_default (property a ''page'') (JNum 1))),
          (True, ''limit'', call_toString ''limit'' (with_default (property a ''limit'') (JNum 10)))]) (\<lambda>params.
      and_then (ToString (property a ''collection'')) (\<lambda>collection.
      Inr (''/items/'' @ collection @ ''?'' @ URLSearchParams_toString rt params, no_options))))) w"

definition handleGetItem :: handler where
  "handleGetItem rt cfg b args w = via_request rt cfg b
     (and_then (destructure ''collection'' args) (\<lambda>a.
      and_then (ToString (property a ''collection'')) (\<lambda>collection.
      and_then (ToString (property a ''id'')) (\<lambda>id.
      Inr (''/items/'' @ collection @ ''/'' @ id, no_options))))) w"

definition handleCreateItem :: handler where
  "handleCreateItem rt cfg b args w = via_request rt cfg b
     (and_then (destructure ''collection'' args) (\<lambda>a.
      and_then (ToString (property a ''collection'')) (\<lambda>collection.
      Inr (''/items/'' @ collection, with_data ''POST'' (property a ''data''))))) w"

definition handleUpdateItem :: handler where
  "handleUpdateItem rt cfg b args w = via_request rt cfg b
     (and_then (destructure ''collection'' args) (\<lambda>a.
      and_then (ToString (property a ''collection'')) (\<lambda>collection.
      and_then (ToString (property a ''id'')) (\<lambda>id.
      Inr (''/items/'' @ collection @ ''/'' @ id, with_data ''PUT'' (property a ''data'')))))) w"

definition handleDeleteItem :: handler where
  "handleDeleteItem rt cfg b args w = via_request rt cfg b
     (and_then (destructure ''collection'' args) (\<lambda>a.
      and_then (ToString (property a ''collection'')) (\<lambda>collection.
      and_then (ToString (property a ''id'')) (\<lambda>id.
      Inr (''/items/'' @ collection @ ''/'' @ id, with_method ''DELETE''))))) w"

definition handleListFiles :: handler where
  "handleListFiles rt cfg b args w = via_request rt cfg b
     (and_then (destructure ''filter'' args) (\<lambda>a.
      and_then (build_params
         [(js_truthy (property a ''filter''), ''filter'', Inr (JSON_stringify rt (property a ''filter''))),
          (True, ''page'', call_toString ''page'' (with_default (property a ''page'') (JNum 1))),
          (True, ''limit'', call_toString ''limit'' (with_default (property a ''limit'') (JNum 10)))]) (\<lambda>params.
      Inr (''/files?'' @ URLSearchParams_toString rt params, no_options)))) w"

definition handleGetFileInfo :: handler where
  "handleGetFileInfo rt cfg b args w = via_request rt cfg b
     (and_then (destructure ''id'' args) (\<lambda>a.
      and_then (ToString (property a ''id'')) (\<lambda>id.
      Inr (''/files/'' @ id, no_options)))) w"

definition handleDeleteFile :: handler where
  "handleDeleteFile rt cfg b args w = via_request rt cfg b
     (and_then (destructure ''id'' args) (\<lambda>a.
      and_then (ToString (property a ''id'')) (\<lambda>id.
      Inr (''/files/'' @ id, with_method ''DELETE'')))) w"

section \<open>Authentication handlers\<close>

text \<open>The body of the \<open>catch\<close> of \<open>handleAuthStatus\<close>.\<close>

definition auth_status_error :: "runtime \<Rightarrow> settings \<Rightarrow> js_error \<Rightarrow> tool_result" where
  "auth_status_error rt cfg error = text_result rt (JObj
     [(''error'', JStr (js_message error)),
      (''auth_method'', JStr ''None''),
      (''manual_token_provided'', JBool (truthy (BAASIX_AUTH_TOKEN cfg))),
      (''configured_user'', JStr (or_else (BAASIX_EMAIL cfg) ''Not configured''))])"

text \<open>\<open>authExpiry ? new Date(authExpiry).toISOString() : otherwise\<close>\<close>

definition expiry_string :: "runtime \<Rightarrow> world \<Rightarrow> string \<Rightarrow> js_error + string" where
  "expiry_string rt w otherwise =
     (case authExpiry w of
        Some e \<Rightarrow> (if e \<noteq> 0 then Date_toISOString rt e else Inr otherwise)
      | None \<Rightarrow> Inr otherwise)"

definition handleAuthStatus :: handler where
  "handleAuthStatus rt cfg b args w =
     (case getAuthToken cfg b w of
        (Inl error, w1) \<Rightarrow> (Inr (auth_status_error rt cfg error), w1)
      | (Inr token, w1) \<Rightarrow>
          (case expiry_string rt w1 ''N/A'' of
             Inl error \<Rightarrow> (Inr (auth_status_error rt cfg error), w1)
           | Inr expires \<Rightarrow>
               (Inr (text_result rt (JObj
                  [(''auth_method'', JStr
                      (if truthy (BAASIX_AUTH_TOKEN cfg) then ''Manual Token''
                       else if truthy (BAASIX_EMAIL cfg) then ''Auto-login'' else ''None'')),
                   (''configured_user'', JStr (or_else (BAASIX_EMAIL cfg) ''Not configured'')),
                   (''manual_token_provided'', JBool (truthy (BAASIX_AUTH_TOKEN cfg))),
                   (''authenticated'', JBool (truthy token)),
                   (''auto_login_expires'', JStr expires),
                   (''auto_login_valid'', JBool (cache_valid w1))])), w1)))"

text \<open>The body of the \<open>catch\<close> of \<open>handleRefreshAuth\<close>.\<close>

definition refresh_auth_error :: "runtime \<Rightarrow> settings \<Rightarrow> js_error \<Rightarrow> tool_result" where
  "refresh_auth_error rt cfg error = text_result rt (JObj
     [(''success'', JBool False),
      (''error'', JStr (js_message error)),
      (''user'', JStr (or_else (BAASIX_EMAIL cfg) ''Not configured''))])"

definition handleRefreshAuth :: handler where
  "handleRefreshAuth rt cfg b args w =
     (if truthy (BAASIX_AUTH_TOKEN cfg) then
        (Inr (text_result rt (JObj
           [(''message'', JStr ''Using manual token (BAASIX_AUTH_TOKEN), no refresh needed''),
            (''auth_method'', JStr ''Manual Token'')])), w)
      else
        (case getAuthToken cfg b (w\<lparr>authToken := None, authExpiry := None\<rparr>) of
           (Inl error, w1) \<Rightarrow> (Inr (refresh_auth_error rt cfg error), w1)
         | (Inr token, w1) \<Rightarrow>
             (case expiry_string rt w1 ''Unknown'' of
                Inl error \<Rightarrow> (Inr (refresh_auth_error rt cfg error), w1)
              | Inr expires \<Rightarrow>
                  (Inr (text_result rt (JObj
                     [(''success'', JBool (truthy token)),
                      (''user'', JStr (or_else (BAASIX_EMAIL cfg) ''Not configured'')),
                      (''token_received'', JBool (truthy token)),
                      (''expires'', JStr expires),
                      (''auth_method'', JStr ''Auto-login'')])), w1))))"

section \<open>Report, notification and settings handlers\<close>

definition handleGenerateReport :: handler where
  "handleGenerateReport rt cfg b args w = via_request rt cfg b
     (and_then (destructure ''collection'' args) (\<lambda>a.
      and_then (build_params
         [(js_truthy (property a ''groupBy''), ''groupBy'', ToString (property a ''groupBy'')),
          (js_truthy (property a ''filter''), ''filter'', Inr (JSON_stringify rt (property a ''filter''))),
          (js_truthy (property a ''dateRange''), ''dateRange'', Inr (JSON_stringify rt (property a ''dateRange'')))])
        (\<lambda>params.
      and_then (ToString (property a ''collection'')) (\<lambda>collection.
      Inr (''/reports/'' @ collection @ ''?'' @ URLSearchParams_toString rt params, no_options))))) w"

definition handleGetStats :: handler where
  "handleGetStats rt cfg b args w = via_request rt cfg b
     (and_then (destructure ''collections'' args) (\<lambda>a.
      and_then (build_params
         [(js_truthy (property a ''collections''), ''collections'',
             Inr (JSON_stringify rt (property a ''collections''))),
          (js_truthy (property a ''timeframe''), ''timeframe'', ToString (property a ''timeframe''))])
        (\<lambda>params.
      Inr (''/reports/stats?'' @ URLSearchParams_toString rt params, no_options)))) w"

definition handleListNotifications :: handler where
  "handleListNotifications rt cfg b args w = via_request rt cfg b
     (and_then (destructure ''page'' args) (\<lambda>a.
      and_then (build_params
         [(True, ''page'', call_toString ''page'' (with_default (property a ''page'') (JNum 1))),
          (True, ''limit'', call_toString ''limit'' (with_default (property a ''limit'') (JNum 10))),
          (property a ''seen'' \<noteq> Undefined, ''seen'', call_toString ''seen'' (property a ''seen''))])
        (\<lambda>params.
      Inr (''/notifications?'' @ URLSearchParams_toString rt params, no_options)))) w"

definition handleSendNotification :: handler where
  "handleSendNotification rt cfg b args w = via_request rt cfg b
     (and_then (destructure ''recipients'' args) (\<lambda>a.
      Inr (''/notifications'', with_data ''POST'' (JObj
         (pick a [''recipients'', ''title'', ''message''] @
          [(''type'', with_default (property a ''type'') (JStr ''info''))]))))) w"

definition handleMarkNotificationSeen :: handler where
  "handleMarkNotificationSeen rt cfg b args w = via_request rt cfg b
     (and_then (destructure ''id'' args) (\<lambda>a.
      and_then (ToString (property a ''id'')) (\<lambda>id.
      Inr (''/notifications/'' @ id @ ''/seen'', with_method ''PUT'')))) w"

definition handleGetSettings :: handler where
  "handleGetSettings rt cfg b args w = via_request rt cfg b
     (and_then (destructure ''key'' args) (\<lambda>a.
      and_then (if js_truthy (property a ''key'')
                then and_then (ToString (property a ''key'')) (\<lambda>key. Inr (''/settings/'' @ key))
                else Inr ''/settings'') (\<lambda>endpoint.
      Inr (endpoint, no_options)))) w"

definition handleUpdateSettings :: handler where
  "handleUpdateSettings rt cfg b args w = via_request rt cfg b
     (and_then (destructure ''settings'' args) (\<lambda>a.
      Inr (''/settings'', with_data ''PUT'' (property a ''settings'')))) w"

section \<open>Permission handlers\<close>

definition handleListRoles :: handler where
  "handleListRoles rt cfg b args w = via_request rt cfg b (Inr (''/permissions/roles'', no_options)) w"

definition handleListPermissions :: handler where
  "handleListPermissions rt cfg b args w = via_request rt cfg b
     (and_then (destructure ''filter'' args) (\<lambda>a.
      and_then (build_params
         [(js_truthy (property a ''filter''), ''filter'', Inr (JSON_stringify rt (property a ''filter''))),
          (js_truthy (property a ''sort''), ''sort'', ToString (property a ''sort'')),
          (True, ''page'', call_toString ''page'' (with_default (property a ''page'') (JNum 1))),
          (True, ''limit'', call_toString ''limit'' (with_default (property a ''limit'') (JNum 10)))])
        (\<lambda>params.
      Inr (''/permissions?'' @ URLSearchParams_toString rt params, no_options)))) w"

definition handleGetPermission :: handler where
  "handleGetPermission rt cfg b args w = via_request rt cfg b
     (and_then (destructure ''id'' args) (\<lambda>a.
      and_then (ToString (property a ''id'')) (\<lambda>id.
      Inr (''/permissions/'' @ id, no_options)))) w"

definition handleGetPermissions :: handler where
  "handleGetPermissions rt cfg b args w = via_request rt cfg b
     (and_then (destructure ''role'' args) (\<lambda>a.
      and_then (ToString (property a ''role'')) (\<lambda>role.
      Inr (''/permissions/'' @ role, no_options)))) w"

definition permission_fields :: "string list" where
  "permission_fields =
     [''role_Id'', ''collection'', ''action'', ''fields'', ''conditions'', ''defaultValues'', ''relConditions'']"

definition handleCreatePermission :: handler where
  "handleCreatePermission rt cfg b args w = via_request rt cfg b
     (and_then (destructure ''role_Id'' args) (\<lambda>a.
      Inr (''/permissions'', with_data ''POST'' (JObj (pick a permission_fields))))) w"

definition handleUpdatePermission :: handler where
  "handleUpdatePermission rt cfg b args w = via_request rt cfg b
     (and_then (destructure ''id'' args) (\<lambda>a.
      and_then (ToString (property a ''id'')) (\<lambda>id.
      Inr (''/permissions/'' @ id, with_data ''PATCH'' (JObj (pick a permission_fields)))))) w"

definition handleDeletePermission :: handler where
  "handleDeletePermission rt cfg b args w = via_request rt cfg b
     (and_then (destructure ''id'' args) (\<lambda>a.
      and_then (ToString (property a ''id'')) (\<lambda>id.
      Inr (''/permissions/'' @ id, with_method ''DELETE'')))) w"

definition handleReloadPermissions :: handler where
  "handleReloadPermissions rt cfg b args w =
     via_request rt cfg b (Inr (''/permissions/reload'', with_method ''POST'')) w"

definition handleUpdatePermissions :: handler where
  "handleUpdatePermissions rt cfg b args w = via_request rt cfg b
     (and_then (destructure ''role'' args) (\<lambda>a.
      and_then (ToString (property a ''role'')) (\<lambda>role.
      Inr (''/permissions/'' @ role, with_data ''PUT'' (property a ''permissions''))))) w"

section \<open>Utility handlers\<close>

text \<open>The \<open>mcp_server\<close> object of \<open>handleServerInfo\<close>, built at the current time.\<close>

definition mcp_server_info :: "runtime \<Rightarrow> settings \<Rightarrow> world \<Rightarrow> js_error + jsval" where
  "mcp_server_info rt cfg w =
     and_then (Date_toISOString rt (now w)) (\<lambda>timestamp.
     Inr (JObj
       [(''name'', JStr ''baasix-mcp-server''),
        (''version'', JStr ''1.0.0''),
        (''timestamp'', JStr timestamp),
        (''uptime'', process_uptime rt (now w)),
        (''memory'', process_memoryUsage rt (now w)),
        (''nodejs'', JStr (process_version rt)),
        (''baasix_url'', JStr (BAASIX_URL cfg))]))"

text \<open>The body of the \<open>catch\<close> of \<open>handleServerInfo\<close>; an error in it leaves the handler.\<close>

definition server_info_error :: "runtime \<Rightarrow> settings \<Rightarrow> world \<Rightarrow> (js_error + tool_result) \<times> world" where
  "server_info_error rt cfg w =
     (case mcp_server_info rt cfg w of
        Inl e \<Rightarrow> (Inl e, w)
      | Inr mcp \<Rightarrow>
          (Inr (text_result rt (JObj
             [(''error'', JStr ''Could not fetch Baasix server info''), (''mcp_server'', mcp)])), w))"

definition handleServerInfo :: handler where
  "handleServerInfo rt cfg b args w =
     (case baasixRequest cfg b ''/utils/info'' no_options w of
        (Inl error, w1) \<Rightarrow> server_info_error rt cfg w1
      | (Inr info, w1) \<Rightarrow>
          (case mcp_server_info rt cfg w1 of
             Inl error \<Rightarrow> server_info_error rt cfg w1
           | Inr mcp \<Rightarrow>
               (Inr (text_result rt (JObj [(''baasix_server'', info), (''mcp_server'', mcp)])), w1)))"

definition handleSortItems :: handler where
  "handleSortItems rt cfg b args w = via_request rt cfg b
     (and_then (destructure ''collection'' args) (\<lambda>a.
      and_then (ToString (property a ''collection'')) (\<lambda>collection.
      Inr (''/utils/sort/'' @ collection, with_data ''POST'' (JObj (pick a [''item'', ''to''])))))) w"

section \<open>User and session handlers\<close>

definition register_fields :: "string list" where
  "register_fields =
     [''email'', ''password'', ''firstName'', ''lastName'', ''tenant'', ''roleName'', ''inviteToken'',
      ''authMode'']"

text \<open>\<open>...customParams\<close>: the properties of the arguments that the pattern does not name.\<close>

definition handleRegisterUser :: handler where
  "handleRegisterUser rt cfg b args w = via_request rt cfg b
     (and_then (destructure ''email'' args) (\<lambda>a.
      Inr (''/auth/register'', with_data ''POST'' (JObj
         (pick a register_fields @ filter (\<lambda>(k, v). k \<notin> set register_fields) a))))) w"

definition handleLogin :: handler where
  "handleLogin rt cfg b args w = via_request rt cfg b
     (and_then (destructure ''email'' args) (\<lambda>a.
      Inr (''/auth/login'', with_data ''POST''
         (JObj (pick a [''email'', ''password'', ''tenant_Id'', ''authMode'']))))) w"

definition handleSendInvite :: handler where
  "handleSendInvite rt cfg b args w = via_request rt cfg b
     (and_then (destructure ''email'' args) (\<lambda>a.
      Inr (''/auth/invite'', with_data ''POST''
         (JObj (pick a [''email'', ''role_Id'', ''tenant_Id'', ''link'']))))) w"

definition handleVerifyInvite :: handler where
  "handleVerifyInvite rt cfg b args w = via_request rt cfg b
     (and_then (destructure ''token'' args) (\<lambda>a.
      and_then (build_params
         [(js_truthy (property a ''link''), ''link'', ToString (property a ''link''))]) (\<lambda>params.
      and_then (ToString (property a ''token'')) (\<lambda>token.
      Inr (''/auth/verify-invite/'' @ token @ ''?'' @ URLSearchParams_toString rt params, no_options))))) w"

definition handleSendMagicLink :: handler where
  "handleSendMagicLink rt cfg b args w = via_request rt cfg b
     (and_then (destructure ''email'' args) (\<lambda>a.
      Inr (''/auth/magiclink'', with_data ''POST'' (JObj (pick a [''email'', ''link'', ''mode''])))))  w"

definition handleGetUserTenants :: handler where
  "handleGetUserTenants rt cfg b args w = via_request rt cfg b (Inr (''/auth/tenants'', no_options)) w"

definition handleSwitchTenant :: handler where
  "handleSwitchTenant rt cfg b args w = via_request rt cfg b
     (and_then (destructure ''tenant_Id'' args) (\<lambda>a.
      Inr (''/auth/switch-tenant'', with_data ''POST'' (JObj (pick a [''tenant_Id'']))))) w"

definition handleLogout :: handler where
  "handleLogout rt cfg b args w = via_request rt cfg b (Inr (''/auth/logout'', no_options)) w"

definition handleGetCurrentUser :: handler where
  "handleGetCurrentUser rt cfg b args w = via_request rt cfg b
     (and_then (destructure ''fields'' args) (\<lambda>a.
      and_then (build_params
         [(js_truthy (property a ''fields''), ''fields'', call_join ''fields'' (property a ''fields''))])
        (\<lambda>params.
      Inr (''/auth/me?'' @ URLSearchParams_toString rt params, no_options)))) w"

section \<open>The tool catalog and the dispatcher\<close>

text \<open>
  A descriptor of the list the server advertises (\<open>ListToolsRequestSchema\<close>): its name and
  the \<open>required\<close> list of its \<open>inputSchema\<close>. Descriptions and property types are left out.
\<close>

record tool_descriptor =
  tool_name :: string
  required :: "string list"

definition tools :: "tool_descriptor list" where
  "tools =
     [\<lparr>tool_name = ''baasix_list_schemas'', required = []\<rparr>,
      \<lparr>tool_name = ''baasix_get_schema'', required = [''collection'']\<rparr>,
      \<lparr>tool_name = ''baasix_create_schema'', required = [''collection'', ''schema'']\<rparr>,
      \<lparr>tool_name = ''baasix_update_schema'', required = [''collection'', ''schema'']\<rparr>,
      \<lparr>tool_name = ''baasix_delete_schema'', required = [''collection'']\<rparr>,
      \<lparr>tool_name = ''baasix_add_index'', required = [''collection'', ''indexDefinition'']\<rparr>,
      \<lparr>tool_name = ''baasix_remove_index'', required = [''collection'', ''indexName'']\<rparr>,
      \<lparr>tool_name = ''baasix_create_relationship'', required = [''sourceCollection'', ''relationshipData'']\<rparr>,
      \<lparr>tool_name = ''baasix_update_relationship'', required = [''sourceCollection'', ''fieldName'', ''updateData'']\<rparr>,
      \<lparr>tool_name = ''baasix_delete_relationship'', required = [''sourceCollection'', ''fieldName'']\<rparr>,
      \<lparr>tool_name = ''baasix_export_schemas'', required = []\<rparr>,
      \<lparr>tool_name = ''baasix_import_schemas'', required = [''schemas'']\<rparr>,
      \<lparr>tool_name = ''baasix_list_items'', required = [''collection'']\<rparr>,
      \<lparr>tool_name = ''baasix_get_item'', required = [''collection'', ''id'']\<rparr>,
      \<lparr>tool_name = ''baasix_create_item'', required = [''collection'', ''data'']\<rparr>,
      \<lparr>tool_name = ''baasix_update_item'', required = [''collection'', ''id'', ''data'']\<rparr>,
      \<lparr>tool_name = ''baasix_delete_item'', required = [''collection'', ''id'']\<rparr>,
      \<lparr>tool_name = ''baasix_list_files'', required = []\<rparr>,
      \<lparr>tool_name = ''baasix_get_file_info'', required = [''id'']\<rparr>,
      \<lparr>tool_name = ''baasix_delete_file'', required = [''id'']\<rparr>,
      \<lparr>tool_name = ''baasix_auth_status'', required = []\<rparr>,
      \<lparr>tool_name = ''baasix_refresh_auth'', required = []\<rparr>,
      \<lparr>tool_name = ''baasix_generate_report'', required = [''collection'']\<rparr>,
      \<lparr>tool_name = ''baasix_collection_stats'', required = []\<rparr>,
      \<lparr>tool_name = ''baasix_list_notifications'', required = []\<rparr>,
      \<lparr>tool_name = ''baasix_send_notification'', required = [''recipients'', ''title'', ''message'']\<rparr>,
      \<lparr>tool_name = ''baasix_mark_notification_seen'', required = [''id'']\<rparr>,
      \<lparr>tool_name = ''baasix_get_settings'', required = []\<rparr>,
      \<lparr>tool_name = ''baasix_update_settings'', required = [''settings'']\<rparr>,
      \<lparr>tool_name = ''baasix_list_roles'', required = []\<rparr>,
      \<lparr>tool_name = ''baasix_list_permissions'', required = []\<rparr>,
      \<lparr>tool_name = ''baasix_get_permission'', required = [''id'']\<rparr>,
      \<lparr>tool_name = ''baasix_get_permissions'', required = [''role'']\<rparr>,
      \<lparr>tool_name = ''baasix_create_permission'', required = [''role_Id'', ''collection'', ''action'']\<rparr>,
      \<lparr>tool_name = ''baasix_update_permission'', required = [''id'']\<rparr>,
      \<lparr>tool_name = ''baasix_delete_permission'', required = [''id'']\<rparr>,
      \<lparr>tool_name = ''baasix_reload_permissions'', required = []\<rparr>,
      \<lparr>tool_name = ''baasix_update_permissions'', required = [''role'', ''permissions'']\<rparr>,
      \<lparr>tool_name = ''baasix_server_info'', required = []\<rparr>,
      \<lparr>tool_name = ''baasix_sort_items'', required = [''collection'', ''item'', ''to'']\<rparr>,
      \<lparr>tool_name = ''baasix_register_user'', required = [''email'', ''password'']\<rparr>,
      \<lparr>tool_name = ''baasix_login'', required = [''email'', ''password'']\<rparr>,
      \<lparr>tool_name = ''baasix_send_invite'', required = [''email'', ''role_Id'', ''link'']\<rparr>,
      \<lparr>tool_name = ''baasix_verify_invite'', required = [''token'']\<rparr>,
      \<lparr>tool_name = ''baasix_send_magic_link'', required = [''email'']\<rparr>,
      \<lparr>tool_name = ''baasix_get_user_tenants'', required = []\<rparr>,
      \<lparr>tool_name = ''baasix_switch_tenant'', required = [''tenant_Id'']\<rparr>,
      \<lparr>tool_name = ''baasix_logout'', required = []\<rparr>,
      \<lparr>tool_name = ''baasix_get_current_user'', required = []\<rparr>]"

text \<open>The \<open>case\<close> labels of the \<open>switch (name)\<close> with the handler each one calls, in order.\<close>

definition tool_handlers :: "(string \<times> handler) list" where
  "tool_handlers =
     [(''baasix_list_schemas'', handleListSchemas),
      (''baasix_get_schema'', handleGetSchema),
      (''baasix_create_schema'', handleCreateSchema),
      (''baasix_update_schema'', handleUpdateSchema),
      (''baasix_delete_schema'', handleDeleteSchema),
      (''baasix_add_index'', handleAddIndex),
      (''baasix_remove_index'', handleRemoveIndex),
      (''baasix_create_relationship'', handleCreateRelationship),
      (''baasix_update_relationship'', handleUpdateRelationship),
      (''baasix_delete_relationship'', handleDeleteRelationship),
      (''baasix_export_schemas'', handleExportSchemas),
      (''baasix_import_schemas'', handleImportSchemas),
      (''baasix_list_items'', handleListItems),
      (''baasix_get_item'', handleGetItem),
      (''baasix_create_item'', handleCreateItem),
      (''baasix_update_item'', handleUpdateItem),
      (''baasix_delete_item'', handleDeleteItem),
      (''baasix_list_files'', handleListFiles),
      (''baasix_get_file_info'', handleGetFileInfo),
      (''baasix_delete_file'', handleDeleteFile),
      (''baasix_auth_status'', handleAuthStatus),
      (''baasix_refresh_auth'', handleRefreshAuth),
      (''baasix_generate_report'', handleGenerateReport),
      (''baasix_collection_stats'', handleGetStats),
      (''baasix_list_notifications'', handleListNotifications),
      (''baasix_send_notification'', handleSendNotification),
      (''baasix_mark_notification_seen'', handleMarkNotificationSeen),
      (''baasix_get_settings'', handleGetSettings),
      (''baasix_update_settings'', handleUpdateSettings),
      (''baasix_list_roles'', handleListRoles),
      (''baasix_list_permissions'', handleListPermissions),
      (''baasix_get_permission'', handleGetPermission),
      (''baasix_get_permissions'', handleGetPermissions),
      (''baasix_create_permission'', handleCreatePermission),
      (''baasix_update_permission'', handleUpdatePermission),
      (''baasix_delete_permission'', handleDeletePermission),
      (''baasix_reload_permissions'', handleReloadPermissions),
      (''baasix_update_permissions'', handleUpdatePermissions),
      (''baasix_server_info'', handleServerInfo),
      (''baasix_sort_items'', handleSortItems),
      (''baasix_register_user'', handleRegisterUser),
      (''baasix_login'', handleLogin),
      (''baasix_send_invite'', handleSendInvite),
      (''baasix_verify_invite'', handleVerifyInvite),
      (''baasix_send_magic_link'', handleSendMagicLink),
      (''baasix_get_user_tenants'', handleGetUserTenants),
      (''baasix_switch_tenant'', handleSwitchTenant),
      (''baasix_logout'', handleLogout),
      (''baasix_get_current_user'', handleGetCurrentUser)]"

text \<open>
  The body of the \<open>try\<close>: the \<open>switch\<close> picks the handler of the first matching label; the
  \<open>default\<close> case throws \<open>McpError(MethodNotFound)\<close>.
\<close>

definition switch_name ::
  "runtime \<Rightarrow> settings \<Rightarrow> backend \<Rightarrow> string \<Rightarrow> arguments \<Rightarrow> world \<Rightarrow> (thrown + tool_result) \<times> world" where
  "switch_name rt cfg b name args w =
     (case map_of tool_handlers name of
        Some handler \<Rightarrow>
          (case handler rt cfg b args w of
             (Inl e, w') \<Rightarrow> (Inl (Plain e), w')
           | (Inr r, w') \<Rightarrow> (Inr r, w'))
      | None \<Rightarrow> (Inl (McpError MethodNotFound (''Unknown tool: '' @ name)), w))"

text \<open>
  The request handler of \<open>CallToolRequestSchema\<close>: an \<open>McpError\<close> is thrown on, any other
  error becomes \<open>McpError(InternalError)\<close>. (The \<open>console.error\<close> line is not modelled.)
\<close>

definition CallTool ::
  "runtime \<Rightarrow> settings \<Rightarrow> backend \<Rightarrow> string \<Rightarrow> arguments \<Rightarrow> world \<Rightarrow> (thrown + tool_result) \<times> world" where
  "CallTool rt cfg b name args w =
     (case switch_name rt cfg b name args w of
        (Inl (McpError code m), w') \<Rightarrow> (Inl (McpError code m), w')
      | (Inl (Plain error), w') \<Rightarrow>
          (Inl (McpError InternalError (''Tool execution failed: '' @ js_message error)), w')
      | (Inr r, w') \<Rightarrow> (Inr r, w'))"

section \<open>An example runtime\<close>

text \<open>
  A runtime to run the server on concrete inputs: the built-ins of Node.js on JSON
  values whose object keys are not array indices, and fixed figures for \<open>process\<close>.
\<close>

fun join_with :: "string \<Rightarrow> string list \<Rightarrow> string" where
  "join_with sep [] = []"
| "join_with sep [l] = l"
| "join_with sep (l # ls) = l @ sep @ join_with sep ls"

definition hex_digit :: "nat \<Rightarrow> char" where
  "hex_digit d = ''0123456789abcdef'' ! d"

definition HEX_digit :: "nat \<Rightarrow> char" where
  "HEX_digit d = ''0123456789ABCDEF'' ! d"

text \<open>The escapes of a JSON string: quote, backslash and the control characters.\<close>

definition json_escape :: "char \<Rightarrow> string" where
  "json_escape c =
     (let n = (of_char c :: nat) in
      if n = 0x22 then [CHR 0x5C, CHR 0x22]
      else if n = 0x5C then [CHR 0x5C, CHR 0x5C]
      else if n = 0x08 then [CHR 0x5C, CHR ''b'']
      else if n = 0x09 then [CHR 0x5C, CHR ''t'']
      else if n = 0x0A then [CHR 0x5C, CHR ''n'']
      else if n = 0x0C then [CHR 0x5C, CHR ''f'']
      else if n = 0x0D then [CHR 0x5C, CHR ''r'']
      else if n < 0x20 then [CHR 0x5C, CHR ''u'', CHR ''0'', CHR ''0'', hex_digit (n div 16), hex_digit (n mod 16)]
      else [c])"

definition json_quote :: "string \<Rightarrow> string" where
  "json_quote s = CHR 0x22 # concat (map json_escape s) @ [CHR 0x22]"

text \<open>An opening bracket, the items and the closing bracket, at nesting level \<open>l\<close> with gap \<open>g\<close>.\<close>

definition json_wrap :: "nat \<Rightarrow> nat \<Rightarrow> string \<Rightarrow> string list \<Rightarrow> string \<Rightarrow> string" where
  "json_wrap g l opening items closing =
     (if g = 0 then opening @ join_with '','' items @ closing
      else opening @ [CHR 0x0A] @ replicate (g * (l + 1)) CHR '' '' @
           join_with ('','' @ [CHR 0x0A] @ replicate (g * (l + 1)) CHR '' '') items @
           [CHR 0x0A] @ replicate (g * l) CHR '' '' @ closing)"

text \<open>
  \<open>JSON.stringify\<close> with a gap of \<open>g\<close> spaces: an \<open>undefined\<close> array element is written
  \<open>null\<close>, an \<open>undefined\<close> property is left out.
\<close>

fun json_text :: "nat \<Rightarrow> nat \<Rightarrow> jsval \<Rightarrow> string"
  and json_items :: "nat \<Rightarrow> nat \<Rightarrow> jsval list \<Rightarrow> string list"
  and json_members :: "nat \<Rightarrow> nat \<Rightarrow> (string \<times> jsval) list \<Rightarrow> string list" where
  "json_text g l Undefined = ''null''"
| "json_text g l Null = ''null''"
| "json_text g l (JBool b) = (if b then ''true'' else ''false'')"
| "json_text g l (JNum n) = string_of_int n"
| "json_text g l (JStr s) = json_quote s"
| "json_text g l (JArr xs) = (if xs = [] then ''[]'' else json_wrap g l ''['' (json_items g (l + 1) xs) '']'')"
| "json_text g l (JObj fs) =
     (if json_members g (l + 1) fs = [] then ''{}''
      else json_wrap g l ''{'' (json_members g (l + 1) fs) ''}'')"
| "json_items g l [] = []"
| "json_items g l (x # xs) = json_text g l x # json_items g l xs"
| "json_members g l [] = []"
| "json_members g l ((k, v) # fs) =
     (if v = Undefined then json_members g l fs
      else (json_quote k @ (if g = 0 then '':'' else '': '') @ json_text g l v) # json_members g l fs)"

text \<open>The serialisation of a \<open>URLSearchParams\<close> (\<open>application/x-www-form-urlencoded\<close>).\<close>

definition form_encode_char :: "char \<Rightarrow> string" where
  "form_encode_char c =
     (let n = (of_char c :: nat) in
      if (0x30 \<le> n \<and> n \<le> 0x39) \<or> (0x41 \<le> n \<and> n \<le> 0x5A) \<or> (0x61 \<le> n \<and> n \<le> 0x7A) \<or>
         n = 0x2A \<or> n = 0x2D \<or> n = 0x2E \<or> n = 0x5F then [c]
      else if n = 0x20 then ''+''
      else [CHR ''%'', HEX_digit (n div 16), HEX_digit (n mod 16)])"

definition form_encode :: "(string \<times> string) list \<Rightarrow> string" where
  "form_encode ps =
     join_with ''&'' (map (\<lambda>(k, v). concat (map form_encode_char k) @ ''='' @ concat (map form_encode_char v)) ps)"

text \<open>Decimal digits of \<open>n\<close>, padded with zeros to a width of \<open>k\<close>.\<close>

definition padded :: "nat \<Rightarrow> nat \<Rightarrow> string" where
  "padded k n = replicate (k - length (string_of_nat n)) CHR ''0'' @ string_of_nat n"

text \<open>
  \<open>toISOString\<close> of a time value at or after the epoch: the civil date of the day
  number, then the time of day; a year beyond 9999 is written with a sign and six digits.
\<close>

definition iso_date :: "nat \<Rightarrow> string" where
  "iso_date t =
     (let days = t div 86400000;
          ms = t mod 86400000;
          z = days + 719468;
          era = z div 146097;
          doe = z mod 146097;
          yoe = (doe - doe div 1460 + doe div 36524 - doe div 146096) div 365;
          doy = doe - (365 * yoe + yoe div 4 - yoe div 100);
          mp = (5 * doy + 2) div 153;
          d = doy - (153 * mp + 2) div 5 + 1;
          m = (if mp < 10 then mp + 3 else mp - 9);
          y = yoe + era * 400 + (if m \<le> 2 then 1 else 0)
      in (if y \<le> 9999 then padded 4 y else CHR ''+'' # padded 6 y) @ ''-'' @ padded 2 m @ ''-'' @
         padded 2 d @ ''T'' @ padded 2 (ms div 3600000) @ '':'' @ padded 2 (ms div 60000 mod 60) @
         '':'' @ padded 2 (ms div 1000 mod 60) @ ''.'' @ padded 3 (ms mod 1000) @ ''Z'')"

definition node_runtime :: runtime where
  "node_runtime =
     \<lparr>JSON_stringify = json_text 0 0,
      JSON_stringify_2 = json_text 2 0,
      URLSearchParams_toString = form_encode,
      iso_string = iso_date,
      process_uptime = (\<lambda>t. JNum 12),
      process_memoryUsage = (\<lambda>t. JObj [(''rss'', JNum 52428800), (''heapUsed'', JNum 8388608)]),
      process_version = ''v20.11.0''\<rparr>"

section \<open>Configuration loading and startup\<close>

text \<open>A configuration object: environment variable names to string values.\<close>

type_synonym config = "string \<rightharpoonup> string"

definition DEFAULT_CONFIG :: config where
  "DEFAULT_CONFIG =
     [''BAASIX_URL'' \<mapsto> ''http://localhost:8056'',
      ''BAASIX_EMAIL'' \<mapsto> ''admin@baasix.com'',
      ''BAASIX_PASSWORD'' \<mapsto> ''admin@123'']"

record load_options =
  envPath :: "string option"
  useDefaults :: bool
  processEnv :: bool

text \<open>The defaults of the \<open>options\<close> pattern, which a call without arguments gets.\<close>

definition default_options :: load_options where
  "default_options = \<lparr>envPath = None, useDefaults = True, processEnv = True\<rparr>"

text \<open>
  What the loader reads from the host: the path \<open>join(mcpRootPath, '.env')\<close>,
  \<open>fs.existsSync\<close>, the \<open>parsed\<close> result of \<open>dotenvConfig({ path })\<close> (absent when the file
  cannot be read), \<open>process.env\<close>, and whether \<open>new URL(s)\<close> accepts a string. (dotenv also
  copies a parsed variable that \<open>process.env\<close> lacks into \<open>process.env\<close>; the loader has
  merged that variable already, with the same value.)
\<close>

record host =
  root_env_path :: string
  existsSync :: "string \<Rightarrow> bool"
  dotenv_parsed :: "string \<Rightarrow> config option"
  process_env :: config
  URL_parses :: "string \<Rightarrow> bool"

definition envVars :: "string list" where
  "envVars = [''BAASIX_URL'', ''BAASIX_AUTH_TOKEN'', ''BAASIX_EMAIL'', ''BAASIX_PASSWORD'']"

text \<open>\<open>if (process.env[key]) { config[key] = process.env[key]; }\<close>\<close>

definition override_from :: "config \<Rightarrow> string \<Rightarrow> config \<Rightarrow> config" where
  "override_from env key config =
     (case env key of
        Some v \<Rightarrow> (if v \<noteq> [] then config(key \<mapsto> v) else config)
      | None \<Rightarrow> config)"

definition loadEnvironmentConfig :: "load_options \<Rightarrow> host \<Rightarrow> config" where
  "loadEnvironmentConfig options h =
     (let config0 = (if useDefaults options then DEFAULT_CONFIG else Map.empty);
          config1 =
            (if truthy (envPath options) \<or> existsSync h (root_env_path h) then
               (case dotenv_parsed h (or_else (envPath options) (root_env_path h)) of
                  Some parsed \<Rightarrow> config0 ++ parsed
                | None \<Rightarrow> config0)
             else config0)
      in if processEnv options then fold (override_from (process_env h)) envVars config1
         else config1)"

record validation =
  errors :: "string list"
  warnings :: "string list"
  isValid :: bool

definition validateConfig :: "host \<Rightarrow> config \<Rightarrow> validation" where
  "validateConfig h config =
     (let errors1 = (if \<not> truthy (config ''BAASIX_URL'') then [''BAASIX_URL is required''] else []);
          hasToken = truthy (config ''BAASIX_AUTH_TOKEN'');
          hasCredentials = (truthy (config ''BAASIX_EMAIL'') \<and> truthy (config ''BAASIX_PASSWORD''));
          errors2 = errors1 @
            (if \<not> hasToken \<and> \<not> hasCredentials
             then [''Either BAASIX_AUTH_TOKEN or both BAASIX_EMAIL and BAASIX_PASSWORD must be provided'']
             else []);
          warnings1 =
            (if hasToken \<and> hasCredentials
             then [''Both token and credentials provided - token will take priority'']
             else []);
          errors3 = errors2 @
            (case config ''BAASIX_URL'' of
               Some u \<Rightarrow>
                 (if u \<noteq> [] \<and> \<not> URL_parses h u then [''BAASIX_URL must be a valid URL''] else [])
             | None \<Rightarrow> [])
      in \<lparr>errors = errors3, warnings = warnings1, isValid = (length errors3 = 0)\<rparr>)"

text \<open>
  \<open>createConfig\<close> returns the configuration; the second component is what it writes with
  \<open>console.warn\<close>.
\<close>

definition createConfig :: "load_options \<Rightarrow> host \<Rightarrow> js_error + config \<times> string list" where
  "createConfig options h =
     (let config = loadEnvironmentConfig options h;
          v = validateConfig h config
      in if \<not> isValid v
         then Inl (Error (''Configuration validation failed:'' @ [CHR 0x0A] @ join_with [CHR 0x0A] (errors v)))
         else Inr (config, map (\<lambda>warning. ''Warning: '' @ warning) (warnings v)))"

text \<open>
  The constants at the head of the server module:
  \<open>const BAASIX_URL = config.BAASIX_URL || 'http://localhost:8056'\<close> and the three
  credentials as loaded.
\<close>

definition module_settings :: "config \<Rightarrow> settings" where
  "module_settings config =
     \<lparr>BAASIX_URL = or_else (config ''BAASIX_URL'') ''http://localhost:8056'',
      BAASIX_AUTH_TOKEN = config ''BAASIX_AUTH_TOKEN'',
      BAASIX_EMAIL = config ''BAASIX_EMAIL'',
      BAASIX_PASSWORD = config ''BAASIX_PASSWORD''\<rparr>"

text \<open>
  \<open>startMCPServer\<close> at time \<open>t\<close>: the module is evaluated (\<open>const config =
  loadEnvironmentConfig()\<close>, the constants, \<open>authToken = null\<close>, \<open>authExpiry = null\<close>), the
  server object is built and connected to its transport. No step of it reads the
  configuration otherwise, and none throws on it; the result is the state in which the
  server serves tool calls.
\<close>

definition startMCPServer :: "host \<Rightarrow> nat \<Rightarrow> js_error + settings \<times> world" where
  "startMCPServer h t = Inr (module_settings (loadEnvironmentConfig default_options h), initial_world t)"

section \<open>Observations on calls and results\<close>

text \<open>Whether a call of the log is a proxied request (and not a login exchange).\<close>

fun is_api_call :: "http_call \<Rightarrow> bool" where
  "is_api_call (ApiCall baseURL endpoint m d authorization) = True"
| "is_api_call (LoginCall url email password) = False"

text \<open>The calls of a log that are proxied requests, and those that are login exchanges.\<close>

definition api_calls :: "world \<Rightarrow> http_call list" where
  "api_calls w = filter is_api_call (calls w)"

definition login_calls :: "world \<Rightarrow> http_call list" where
  "login_calls w = filter (\<lambda>c. \<not> is_api_call c) (calls w)"

text \<open>The \<open>required\<close> list that the catalog gives for a tool name.\<close>

definition required_of :: "string \<Rightarrow> string list option" where
  "required_of name = map_of (map (\<lambda>d. (tool_name d, required d)) tools) name"

text \<open>The tools whose handlers do not pass \<open>baasixRequest\<close>'s error on.\<close>

definition self_reporting_tools :: "string list" where
  "self_reporting_tools = [''baasix_auth_status'', ''baasix_refresh_auth'', ''baasix_server_info'']"

text \<open>A step that, when it throws, throws an error of the engine.\<close>

definition engine_only :: "js_error + 'a \<Rightarrow> bool" where
  "engine_only r = (case r of Inl (Error m) \<Rightarrow> False | _ \<Rightarrow> True)"

text \<open>
  What a call amounts to without an authentication method: the state is as before, and
  the error is the one of \<open>getAuthToken\<close> or an error of the engine.
\<close>

definition fails_unauthenticated :: "(js_error + tool_result) \<times> world \<Rightarrow> world \<Rightarrow> bool" where
  "fails_unauthenticated result w =
     (snd result = w \<and>
      (case fst result of
         Inl (Error m) \<Rightarrow> m = no_auth_method
       | Inl (EngineError e) \<Rightarrow> True
       | Inr r \<Rightarrow> False))"

section \<open>Example configurations, backends, states and hosts\<close>

text \<open>Email/password mode, explicit-token mode, and no credentials at all.\<close>

definition example_settings :: settings where
  "example_settings =
     \<lparr>BAASIX_URL = ''http://localhost:8056'', BAASIX_AUTH_TOKEN = None,
      BAASIX_EMAIL = Some ''a@b.com'', BAASIX_PASSWORD = Some ''x''\<rparr>"

definition token_settings :: settings where
  "token_settings = example_settings\<lparr>BAASIX_AUTH_TOKEN := Some ''jwt''\<rparr>"

definition bare_settings :: settings where
  "bare_settings = example_settings\<lparr>BAASIX_EMAIL := None, BAASIX_PASSWORD := None\<rparr>"

text \<open>The constants of a server started with the defaults for email and password.\<close>

definition default_settings :: settings where
  "default_settings =
     \<lparr>BAASIX_URL = ''http://localhost:8056'', BAASIX_AUTH_TOKEN = None,
      BAASIX_EMAIL = Some ''admin@baasix.com'', BAASIX_PASSWORD = Some ''admin@123''\<rparr>"

text \<open>The rejection of a request whose token the backend does not accept.\<close>

definition unauthorized :: axios_error where
  "unauthorized =
     \<lparr>status = Some 401, data_message = Some ''Token expired'',
      message = ''Request failed with status code 401''\<rparr>"

text \<open>The rejection of a login exchange.\<close>

definition invalid_credentials :: axios_error where
  "invalid_credentials =
     \<lparr>status = Some 401, data_message = Some ''Invalid credentials'',
      message = ''Request failed with status code 401''\<rparr>"

text \<open>Accepts every login and answers every request with a body.\<close>

definition accepting_backend :: backend where
  "accepting_backend =
     \<lparr>login_reply = (\<lambda>n c. Resolved (Some ''tok'')),
      api_reply = (\<lambda>n c. Resolved (JStr ''ok'')),
      elapsed = (\<lambda>n. 5)\<rparr>"

text \<open>Accepts every login and answers 401 to every request.\<close>

definition rejecting_backend :: backend where
  "rejecting_backend =
     \<lparr>login_reply = (\<lambda>n c. Resolved (Some ''tok'')),
      api_reply = (\<lambda>n c. Rejected unauthorized),
      elapsed = (\<lambda>n. 5)\<rparr>"

text \<open>Refuses every login.\<close>

definition refusing_backend :: backend where
  "refusing_backend =
     \<lparr>login_reply = (\<lambda>n c. Rejected invalid_credentials),
      api_reply = (\<lambda>n c. Rejected unauthorized),
      elapsed = (\<lambda>n. 5)\<rparr>"

text \<open>Accepts the first login, answers 401 to the request, refuses the login after it.\<close>

definition revoking_backend :: backend where
  "revoking_backend =
     \<lparr>login_reply = (\<lambda>n c. if n = 0 then Resolved (Some ''tok'') else Rejected invalid_credentials),
      api_reply = (\<lambda>n c. Rejected unauthorized),
      elapsed = (\<lambda>n. 5)\<rparr>"

text \<open>Accepts every login; answers 401 to the first request and 200 from then on.\<close>

definition expiring_backend :: backend where
  "expiring_backend =
     \<lparr>login_reply = (\<lambda>n c. Resolved (Some ''tok'')),
      api_reply = (\<lambda>n c. if n = 1 then Rejected unauthorized else Resolved (JArr [])),
      elapsed = (\<lambda>n. 5)\<rparr>"

text \<open>A state with a cached token that is still valid.\<close>

definition cached_world :: world where
  "cached_world = \<lparr>authToken = Some ''old'', authExpiry = Some 3601000, now = 2000, calls = []\<rparr>"

text \<open>The state after the first login of \<open>example_settings\<close> at time 1000, seen at time \<open>t\<close>.\<close>

definition aged_world :: "nat \<Rightarrow> world" where
  "aged_world t =
     \<lparr>authToken = Some ''tok'', authExpiry = Some 3601005, now = t,
      calls = [LoginCall ''http://localhost:8056/auth/login'' (Some ''a@b.com'') (Some ''x'')]\<rparr>"

text \<open>
  An approximation of \<open>new URL(s)\<close> for the example hosts: a string is accepted when it
  starts with a scheme (a letter, then letters, digits, \<open>+\<close>, \<open>-\<close> or \<open>.\<close>) and a colon. On
  the strings of the examples it agrees with the parser of Node.
\<close>

definition scheme_char :: "char \<Rightarrow> bool" where
  "scheme_char c =
     (let n = (of_char c :: nat) in
      (0x30 \<le> n \<and> n \<le> 0x39) \<or> (0x41 \<le> n \<and> n \<le> 0x5A) \<or> (0x61 \<le> n \<and> n \<le> 0x7A) \<or>
      n = 0x2B \<or> n = 0x2D \<or> n = 0x2E)"

definition has_scheme :: "string \<Rightarrow> bool" where
  "has_scheme s =
     (case dropWhile scheme_char s of
        [] \<Rightarrow> False
      | c # rest \<Rightarrow> c = CHR '':'' \<and> takeWhile scheme_char s \<noteq> [] \<and>
          (let n = (of_char (hd s) :: nat) in (0x41 \<le> n \<and> n \<le> 0x5A) \<or> (0x61 \<le> n \<and> n \<le> 0x7A)))"

text \<open>A host whose environment sets \<open>BAASIX_URL\<close> only, without a \<open>.env\<close> file.\<close>

definition url_only_host :: host where
  "url_only_host =
     \<lparr>root_env_path = ''/srv/mcp/.env'',
      existsSync = (\<lambda>p. False),
      dotenv_parsed = (\<lambda>p. None),
      process_env = [''BAASIX_URL'' \<mapsto> ''http://localhost:8056''],
      URL_parses = has_scheme\<rparr>"

text \<open>A host whose environment sets a \<open>BAASIX_URL\<close> that is not a URL.\<close>

definition bad_url_host :: host where
  "bad_url_host = url_only_host\<lparr>process_env := [''BAASIX_URL'' \<mapsto> ''not a url'']\<rparr>"

text \<open>A host whose \<open>.env\<close> file blanks the credentials: \<open>BAASIX_EMAIL=\<close> and \<open>BAASIX_PASSWORD=\<close>.\<close>

definition blank_credentials_host :: host where
  "blank_credentials_host =
     \<lparr>root_env_path = ''/srv/mcp/.env'',
      existsSync = (\<lambda>p. p = ''/srv/mcp/.env''),
      dotenv_parsed = (\<lambda>p. if p = ''/srv/mcp/.env''
                            then Some [''BAASIX_EMAIL'' \<mapsto> [], ''BAASIX_PASSWORD'' \<mapsto> []]
                            else None),
      process_env = Map.empty,
      URL_parses = has_scheme\<rparr>"

section \<open>Properties of getAuthToken\<close>

lemma getAuthToken_explicit:
  "truthy (BAASIX_AUTH_TOKEN cfg) \<Longrightarrow> getAuthToken cfg b w = (Inr (BAASIX_AUTH_TOKEN cfg), w)"
  by (simp add: getAuthToken_def)

lemma getAuthToken_cached:
  "\<not> truthy (BAASIX_AUTH_TOKEN cfg) \<Longrightarrow> cache_valid w \<Longrightarrow> getAuthToken cfg b w = (Inr (authToken w), w)"
  by (simp add: getAuthToken_def)

lemma getAuthToken_login_ok:
  assumes "\<not> truthy (BAASIX_AUTH_TOKEN cfg)" "\<not> cache_valid w"
    and "truthy (BAASIX_EMAIL cfg)" "truthy (BAASIX_PASSWORD cfg)"
    and "login_reply b (length (calls w)) (login_call cfg) = Resolved tok"
  shows "getAuthToken cfg b w =
           (Inr tok, \<lparr>authToken = tok,
                      authExpiry = Some (now w + elapsed b (length (calls w)) + 3600000),
                      now = now w + elapsed b (length (calls w)),
                      calls = calls w @ [login_call cfg]\<rparr>)"
  using assms
  by (simp add: getAuthToken_def axios_post_login_def performed_def login_call_def)

lemma getAuthToken_login_failed:
  assumes "\<not> truthy (BAASIX_AUTH_TOKEN cfg)" "\<not> cache_valid w"
    and "truthy (BAASIX_EMAIL cfg)" "truthy (BAASIX_PASSWORD cfg)"
    and "login_reply b (length (calls w)) (login_call cfg) = Rejected e"
  shows "getAuthToken cfg b w =
           (Inl (Error (''Authentication failed: '' @ upstream_message e)),
            w\<lparr>now := now w + elapsed b (length (calls w)), calls := calls w @ [login_call cfg]\<rparr>)"
  using assms
  by (simp add: getAuthToken_def axios_post_login_def performed_def login_call_def)

lemma getAuthToken_none:
  "\<not> truthy (BAASIX_AUTH_TOKEN cfg) \<Longrightarrow> \<not> cache_valid w \<Longrightarrow>
   \<not> (truthy (BAASIX_EMAIL cfg) \<and> truthy (BAASIX_PASSWORD cfg)) \<Longrightarrow>
   getAuthToken cfg b w = (Inl (Error no_auth_method), w)"
  by (auto simp: getAuthToken_def)

text \<open>
  C2. \<open>getAuthToken\<close> resolves the credential in a fixed order, the first match winning:
  (1) a configured explicit token is returned as it is, and the state is untouched;
  (2) otherwise a cached token whose expiry lies after the current time is returned;
  (3) otherwise, with email and password configured, one login exchange is performed, and
  when it succeeds its token is cached with an expiry of one hour (3600 * 1000 ms) after
  the response arrived, and returned, and when it is refused the call fails with
  \<open>Authentication failed: <message>\<close> and caches nothing;
  (4) otherwise it fails with the error \<open>No authentication method available ...\<close>.
\<close>

theorem getAuthToken_resolution_order:
  "(truthy (BAASIX_AUTH_TOKEN cfg) \<longrightarrow> getAuthToken cfg b w = (Inr (BAASIX_AUTH_TOKEN cfg), w)) \<and>
   (\<not> truthy (BAASIX_AUTH_TOKEN cfg) \<and> authToken w = Some t \<and> t \<noteq> [] \<and>
      authExpiry w = Some e \<and> now w < e \<longrightarrow>
      getAuthToken cfg b w = (Inr (Some t), w)) \<and>
   (\<not> truthy (BAASIX_AUTH_TOKEN cfg) \<and> \<not> cache_valid w \<and>
      truthy (BAASIX_EMAIL cfg) \<and> truthy (BAASIX_PASSWORD cfg) \<and>
      login_reply b (length (calls w)) (login_call cfg) = Resolved tok \<longrightarrow>
      getAuthToken cfg b w =
        (Inr tok,
         \<lparr>authToken = tok,
          authExpiry = Some (now w + elapsed b (length (calls w)) + 3600 * 1000),
          now = now w + elapsed b (length (calls w)),
          calls = calls w @ [login_call cfg]\<rparr>)) \<and>
   (\<not> truthy (BAASIX_AUTH_TOKEN cfg) \<and> \<not> cache_valid w \<and>
      truthy (BAASIX_EMAIL cfg) \<and> truthy (BAASIX_PASSWORD cfg) \<and>
      login_reply b (length (calls w)) (login_call cfg) = Rejected err \<longrightarrow>
      getAuthToken cfg b w =
        (Inl (Error (''Authentication failed: '' @ upstream_message err)),
         w\<lparr>now := now w + elapsed b (length (calls w)), calls := calls w @ [login_call cfg]\<rparr>)) \<and>
   (\<not> truthy (BAASIX_AUTH_TOKEN cfg) \<and> \<not> cache_valid w \<and>
      \<not> (truthy (BAASIX_EMAIL cfg) \<and> truthy (BAASIX_PASSWORD cfg)) \<longrightarrow>
      getAuthToken cfg b w = (Inl (Error no_auth_method), w))"
proof (intro conjI impI)
  assume "truthy (BAASIX_AUTH_TOKEN cfg)"
  then show "getAuthToken cfg b w = (Inr (BAASIX_AUTH_TOKEN cfg), w)"
    by (rule getAuthToken_explicit)
next
  assume a: "\<not> truthy (BAASIX_AUTH_TOKEN cfg) \<and> authToken w = Some t \<and> t \<noteq> [] \<and>
      authExpiry w = Some e \<and> now w < e"
  then have "cache_valid w" by (simp add: cache_valid_def)
  with a show "getAuthToken cfg b w = (Inr (Some t), w)"
    by (simp add: getAuthToken_cached)
next
  assume a: "\<not> truthy (BAASIX_AUTH_TOKEN cfg) \<and> \<not> cache_valid w \<and>
      truthy (BAASIX_EMAIL cfg) \<and> truthy (BAASIX_PASSWORD cfg) \<and>
      login_reply b (length (calls w)) (login_call cfg) = Resolved tok"
  then show "getAuthToken cfg b w =
        (Inr tok,
         \<lparr>authToken = tok,
          authExpiry = Some (now w + elapsed b (length (calls w)) + 3600 * 1000),
          now = now w + elapsed b (length (calls w)),
          calls = calls w @ [login_call cfg]\<rparr>)"
    by (simp add: getAuthToken_login_ok)
next
  assume "\<not> truthy (BAASIX_AUTH_TOKEN cfg) \<and> \<not> cache_valid w \<and>
      truthy (BAASIX_EMAIL cfg) \<and> truthy (BAASIX_PASSWORD cfg) \<and>
      login_reply b (length (calls w)) (login_call cfg) = Rejected err"
  then show "getAuthToken cfg b w =
        (Inl (Error (''Authentication failed: '' @ upstream_message err)),
         w\<lparr>now := now w + elapsed b (length (calls w)), calls := calls w @ [login_call cfg]\<rparr>)"
    by (simp add: getAuthToken_login_failed)
next
  assume "\<not> truthy (BAASIX_AUTH_TOKEN cfg) \<and> \<not> cache_valid w \<and>
      \<not> (truthy (BAASIX_EMAIL cfg) \<and> truthy (BAASIX_PASSWORD cfg))"
  then show "getAuthToken cfg b w = (Inl (Error no_auth_method), w)"
    by (simp add: getAuthToken_none)
qed

theorem getAuthToken_resolution_order_witness:
  "getAuthToken token_settings accepting_backend cached_world = (Inr (Some ''jwt''), cached_world) \<and>
   getAuthToken example_settings accepting_backend cached_world = (Inr (Some ''old''), cached_world) \<and>
   getAuthToken example_settings accepting_backend (initial_world 1000) =
     (Inr (Some ''tok''),
      \<lparr>authToken = Some ''tok'', authExpiry = Some 3601005, now = 1005,
       calls = [LoginCall ''http://localhost:8056/auth/login'' (Some ''a@b.com'') (Some ''x'')]\<rparr>) \<and>
   getAuthToken example_settings refusing_backend (initial_world 1000) =
     (Inl (Error ''Authentication failed: Invalid credentials''),
      \<lparr>authToken = None, authExpiry = None, now = 1005,
       calls = [LoginCall ''http://localhost:8056/auth/login'' (Some ''a@b.com'') (Some ''x'')]\<rparr>) \<and>
   getAuthToken bare_settings accepting_backend (initial_world 1000) =
     (Inl (Error no_auth_method), initial_world 1000)"
  using getAuthToken_resolution_order [where cfg = token_settings and b = accepting_backend and w = cached_world]
    getAuthToken_resolution_order [where cfg = example_settings and b = refusing_backend
      and w = "initial_world 1000" and err = invalid_credentials]
    getAuthToken_resolution_order [where cfg = example_settings and b = accepting_backend
      and w = cached_world and t = "''old''" and e = 3601000]
    getAuthToken_resolution_order [where cfg = example_settings and b = accepting_backend
      and w = "initial_world 1000" and tok = "Some ''tok''"]
    getAuthToken_resolution_order [where cfg = bare_settings and b = accepting_backend
      and w = "initial_world 1000"]
  by (simp add: token_settings_def example_settings_def bare_settings_def accepting_backend_def
      refusing_backend_def invalid_credentials_def upstream_message_def
      cached_world_def initial_world_def cache_valid_def login_call_def)

lemma cache_valid_iff:
  "cache_valid w \<longleftrightarrow> (\<exists>t e. authToken w = Some t \<and> t \<noteq> [] \<and> authExpiry w = Some e \<and> now w < e)"
  by (cases "authToken w"; cases "authExpiry w") (auto simp: cache_valid_def)

lemma getAuthToken_login_call:
  assumes "\<not> truthy (BAASIX_AUTH_TOKEN cfg)" "\<not> cache_valid w"
    and "truthy (BAASIX_EMAIL cfg)" "truthy (BAASIX_PASSWORD cfg)"
  shows "calls (snd (getAuthToken cfg b w)) = calls w @ [login_call cfg]"
  using assms
  by (cases "login_reply b (length (calls w)) (login_call cfg)")
     (simp_all add: getAuthToken_login_ok getAuthToken_login_failed)

text \<open>
  C4. In email/password mode, let a token have been obtained by a login exchange whose
  response arrived at time \<open>T = now w1\<close>, and let \<open>getAuthToken\<close> be called again at time
  \<open>T' = now w2\<close> with that token still cached. If \<open>T' - T < 3600 s\<close> (3600 * 1000 ms) the
  cached token is returned and nothing else happens. If \<open>T' - T \<ge> 3600 s\<close> a fresh login
  exchange is performed, and when it succeeds its token and a new expiry, one hour after
  the new response, replace the cached ones.
\<close>

theorem token_reused_within_one_hour:
  assumes mode: "\<not> truthy (BAASIX_AUTH_TOKEN cfg)" "truthy (BAASIX_EMAIL cfg)" "truthy (BAASIX_PASSWORD cfg)"
    and obtained: "\<not> cache_valid w0" "getAuthToken cfg b w0 = (Inr (Some tok), w1)" "tok \<noteq> []"
    and later: "authToken w2 = authToken w1" "authExpiry w2 = authExpiry w1"
  shows "(int (now w2) - int (now w1) < 3600 * 1000 \<longrightarrow>
            getAuthToken cfg b w2 = (Inr (Some tok), w2)) \<and>
         (int (now w2) - int (now w1) \<ge> 3600 * 1000 \<longrightarrow>
            calls (snd (getAuthToken cfg b w2)) = calls w2 @ [login_call cfg] \<and>
            (\<forall>tok'. login_reply b (length (calls w2)) (login_call cfg) = Resolved tok' \<longrightarrow>
               fst (getAuthToken cfg b w2) = Inr tok' \<and>
               authToken (snd (getAuthToken cfg b w2)) = tok' \<and>
               authExpiry (snd (getAuthToken cfg b w2)) =
                 Some (now (snd (getAuthToken cfg b w2)) + 3600 * 1000)))"
proof -
  obtain r where r: "login_reply b (length (calls w0)) (login_call cfg) = r" by simp
  have w1: "authToken w1 = Some tok \<and> authExpiry w1 = Some (now w1 + 3600 * 1000)"
  proof (cases r)
    case (Resolved t)
    with r mode obtained show ?thesis by (auto simp: getAuthToken_login_ok)
  next
    case (Rejected e)
    with r mode obtained show ?thesis by (simp add: getAuthToken_login_failed)
  qed
  with later have w2: "authToken w2 = Some tok" "authExpiry w2 = Some (now w1 + 3600 * 1000)"
    by simp_all
  show ?thesis
  proof (intro conjI impI allI)
    assume "int (now w2) - int (now w1) < 3600 * 1000"
    then have "now w2 < now w1 + 3600 * 1000" by linarith
    with w2 obtained(3) have "cache_valid w2" by (simp add: cache_valid_def)
    with mode w2 show "getAuthToken cfg b w2 = (Inr (Some tok), w2)"
      by (simp add: getAuthToken_cached)
  next
    assume "3600 * 1000 \<le> int (now w2) - int (now w1)"
    then have "\<not> now w2 < now w1 + 3600 * 1000" by linarith
    with w2 have nv: "\<not> cache_valid w2" by (simp add: cache_valid_def)
    with mode show "calls (snd (getAuthToken cfg b w2)) = calls w2 @ [login_call cfg]"
      by (simp add: getAuthToken_login_call)
    fix tok' assume "login_reply b (length (calls w2)) (login_call cfg) = Resolved tok'"
    with mode nv have "getAuthToken cfg b w2 =
           (Inr tok', \<lparr>authToken = tok',
                      authExpiry = Some (now w2 + elapsed b (length (calls w2)) + 3600000),
                      now = now w2 + elapsed b (length (calls w2)),
                      calls = calls w2 @ [login_call cfg]\<rparr>)"
      by (simp add: getAuthToken_login_ok)
    then show "fst (getAuthToken cfg b w2) = Inr tok'"
      and "authToken (snd (getAuthToken cfg b w2)) = tok'"
      and "authExpiry (snd (getAuthToken cfg b w2)) =
                 Some (now (snd (getAuthToken cfg b w2)) + 3600 * 1000)"
      by simp_all
  qed
qed

theorem token_reused_within_one_hour_witness:
  "getAuthToken example_settings accepting_backend (initial_world 1000) =
     (Inr (Some ''tok''), aged_world 1005) \<and>
   getAuthToken example_settings accepting_backend (aged_world 3601004) =
     (Inr (Some ''tok''), aged_world 3601004) \<and>
   calls (snd (getAuthToken example_settings accepting_backend (aged_world 3601005))) =
     calls (aged_world 3601005) @ [login_call example_settings]"
proof -
  have mode: "\<not> truthy (BAASIX_AUTH_TOKEN example_settings)"
    "truthy (BAASIX_EMAIL example_settings)" "truthy (BAASIX_PASSWORD example_settings)"
    by (simp_all add: example_settings_def)
  have fresh: "\<not> cache_valid (initial_world 1000)"
    by (simp add: cache_valid_def initial_world_def)
  have first: "getAuthToken example_settings accepting_backend (initial_world 1000) =
      (Inr (Some ''tok''), aged_world 1005)"
    by (simp add: getAuthToken_def example_settings_def accepting_backend_def aged_world_def
        initial_world_def cache_valid_def axios_post_login_def performed_def)
  have tok: "''tok'' \<noteq> []" by simp
  have same: "authToken (aged_world t) = authToken (aged_world 1005)"
    "authExpiry (aged_world t) = authExpiry (aged_world 1005)" for t
    by (simp_all add: aged_world_def)
  from token_reused_within_one_hour [OF mode fresh first tok same, of 3601004]
    token_reused_within_one_hour [OF mode fresh first tok same, of 3601005]
    first
  show ?thesis by (simp add: aged_world_def)
qed

section \<open>Properties of baasixRequest\<close>

lemma getAuthToken_caches:
  assumes "\<not> truthy (BAASIX_AUTH_TOKEN cfg)" "getAuthToken cfg b w = (Inr t, w1)"
  shows "authToken w1 = t"
proof (cases "cache_valid w")
  case True
  with assms show ?thesis by (auto simp: getAuthToken_cached)
next
  case False
  show ?thesis
  proof (cases "truthy (BAASIX_EMAIL cfg) \<and> truthy (BAASIX_PASSWORD cfg)")
    case True
    with False assms show ?thesis
      by (cases "login_reply b (length (calls w)) (login_call cfg)")
         (auto simp: getAuthToken_login_ok getAuthToken_login_failed)
  next
    case no: False
    with False assms show ?thesis by (simp add: getAuthToken_none)
  qed
qed

lemma cleared_not_valid: "\<not> cache_valid (w\<lparr>authToken := None, authExpiry := None\<rparr>)"
  by (simp add: cache_valid_def)

lemma performed_simps:
  "calls (performed b c w) = calls w @ [c]"
  "now (performed b c w) = now w + elapsed b (length (calls w))"
  "authToken (performed b c w) = authToken w"
  "authExpiry (performed b c w) = authExpiry w"
  by (simp_all add: performed_def)

lemma baasixRequest_resolved:
  assumes "getAuthToken cfg b w = (Inr token, w1)"
    and "api_reply b (length (calls w1)) (api_call cfg endpoint opts (bearer token)) = Resolved d"
  shows "baasixRequest cfg b endpoint opts w =
           (Inr d, performed b (api_call cfg endpoint opts (bearer token)) w1)"
  using assms by (simp add: baasixRequest_def axios_def)

lemma baasixRequest_no_retry:
  assumes "getAuthToken cfg b w = (Inr token, w1)"
    and "api_reply b (length (calls w1)) (api_call cfg endpoint opts (bearer token)) = Rejected e"
    and "status e \<noteq> Some 401 \<or> \<not> truthy (authToken w1) \<or> truthy (BAASIX_AUTH_TOKEN cfg)"
  shows "baasixRequest cfg b endpoint opts w =
           (Inl (api_error (upstream_message e)),
            performed b (api_call cfg endpoint opts (bearer token)) w1)"
  using assms by (auto simp: baasixRequest_def axios_def performed_simps)

lemma baasixRequest_retry:
  assumes "getAuthToken cfg b w = (Inr token, w1)"
    and "api_reply b (length (calls w1)) (api_call cfg endpoint opts (bearer token)) = Rejected e"
    and "status e = Some 401" "truthy (authToken w1)" "\<not> truthy (BAASIX_AUTH_TOKEN cfg)"
  shows "baasixRequest cfg b endpoint opts w =
           (case getAuthToken cfg b
                   ((performed b (api_call cfg endpoint opts (bearer token)) w1)
                      \<lparr>authToken := None, authExpiry := None\<rparr>) of
              (Inl retryError, w3) \<Rightarrow> (Inl (api_error (js_message retryError)), w3)
            | (Inr newToken, w3) \<Rightarrow>
                if truthy newToken then
                  (case axios b (api_call cfg endpoint opts (bearer newToken)) w3 of
                     (Resolved d, w4) \<Rightarrow> (Inr d, w4)
                   | (Rejected retryError, w4) \<Rightarrow>
                       (Inl (api_error (upstream_message retryError)), w4))
                else (Inl (api_error (upstream_message e)), w3))"
  using assms by (simp add: baasixRequest_def axios_def performed_simps)


lemma bearer_truthy: "t \<noteq> [] \<Longrightarrow> bearer (Some t) = Some (''Bearer '' @ t)"
  by (simp add: bearer_def)

text \<open>
  C1 (amended). Let \<open>baasixRequest\<close> have obtained a non-empty token and let the backend
  reject the request with the error \<open>e\<close>. In email/password mode, if the status of \<open>e\<close> is
  401, the cached token is cleared and one login exchange follows. If that exchange
  yields a non-empty token, the request is issued once more, with the new token, and
  the call ends there: with the body of the retry, or with the error
  \<open>Baasix API Error: <message of the retry's failure>\<close>, whatever the status of that
  failure. If the exchange is refused, the request is not issued again and the error is
  \<open>Baasix API Error: Authentication failed: <message of the login failure>\<close>; if it yields
  no token, the error carries the message of \<open>e\<close>. If the status of \<open>e\<close> is not 401, or
  an explicit token is configured, there is no retry and the error is
  \<open>Baasix API Error: <message of e>\<close>.
\<close>

theorem baasixRequest_retries_once:
  assumes token: "getAuthToken cfg b w = (Inr (Some tok), w1)" "tok \<noteq> []"
    and c1: "c1 = api_call cfg endpoint opts (Some (''Bearer '' @ tok))"
    and first: "api_reply b (length (calls w1)) c1 = Rejected e"
    and n: "n = length (calls w1)"
    and r: "(r, w') = baasixRequest cfg b endpoint opts w"
  shows
    "(\<not> truthy (BAASIX_AUTH_TOKEN cfg) \<and> truthy (BAASIX_EMAIL cfg) \<and> truthy (BAASIX_PASSWORD cfg) \<and>
      status e = Some 401 \<longrightarrow>
        (\<forall>t2. login_reply b (n + 1) (login_call cfg) = Resolved (Some t2) \<and> t2 \<noteq> [] \<longrightarrow>
           calls w' = calls w1 @
             [c1, login_call cfg, api_call cfg endpoint opts (Some (''Bearer '' @ t2))] \<and>
           authToken w' = Some t2 \<and>
           (\<forall>d. api_reply b (n + 2) (api_call cfg endpoint opts (Some (''Bearer '' @ t2))) = Resolved d
                 \<longrightarrow> r = Inr d) \<and>
           (\<forall>e2. api_reply b (n + 2) (api_call cfg endpoint opts (Some (''Bearer '' @ t2))) = Rejected e2
                 \<longrightarrow> r = Inl (api_error (upstream_message e2)))) \<and>
        (\<forall>le. login_reply b (n + 1) (login_call cfg) = Rejected le \<longrightarrow>
           r = Inl (api_error (''Authentication failed: '' @ upstream_message le)) \<and>
           calls w' = calls w1 @ [c1, login_call cfg] \<and>
           authToken w' = None \<and> authExpiry w' = None) \<and>
        (\<forall>t2. login_reply b (n + 1) (login_call cfg) = Resolved t2 \<and> \<not> truthy t2 \<longrightarrow>
           r = Inl (api_error (upstream_message e)) \<and>
           calls w' = calls w1 @ [c1, login_call cfg])) \<and>
     (status e \<noteq> Some 401 \<or> truthy (BAASIX_AUTH_TOKEN cfg) \<longrightarrow>
        r = Inl (api_error (upstream_message e)) \<and> calls w' = calls w1 @ [c1])"
proof (rule conjI; rule impI)
  assume "status e \<noteq> Some 401 \<or> truthy (BAASIX_AUTH_TOKEN cfg)"
  then have "status e \<noteq> Some 401 \<or> \<not> truthy (authToken w1) \<or> truthy (BAASIX_AUTH_TOKEN cfg)"
    by blast
  from baasixRequest_no_retry [OF token(1) _ this, of endpoint opts] first c1 token(2) r
  have "(r, w') = (Inl (api_error (upstream_message e)), performed b c1 w1)"
    by (simp add: bearer_truthy)
  then show "r = Inl (api_error (upstream_message e)) \<and> calls w' = calls w1 @ [c1]"
    by (simp add: performed_simps)
next
  assume mode: "\<not> truthy (BAASIX_AUTH_TOKEN cfg) \<and> truthy (BAASIX_EMAIL cfg) \<and>
      truthy (BAASIX_PASSWORD cfg) \<and> status e = Some 401"
  define w2 where "w2 = (performed b c1 w1)\<lparr>authToken := None, authExpiry := None\<rparr>"
  have w2: "\<not> cache_valid w2" "calls w2 = calls w1 @ [c1]" "length (calls w2) = n + 1"
    by (simp_all add: w2_def cleared_not_valid performed_simps n)
  from mode have "\<not> truthy (BAASIX_AUTH_TOKEN cfg)" by simp
  from getAuthToken_caches [OF this token(1)] have "authToken w1 = Some tok" .
  with token(2) have "truthy (authToken w1)" by simp
  from baasixRequest_retry [OF token(1) _ _ this, of endpoint opts e] first c1 token(2) r mode
  have unfold: "(r, w') =
     (case getAuthToken cfg b w2 of
        (Inl retryError, w3) \<Rightarrow> (Inl (api_error (js_message retryError)), w3)
      | (Inr newToken, w3) \<Rightarrow>
          if truthy newToken then
            (case axios b (api_call cfg endpoint opts (bearer newToken)) w3 of
               (Resolved d, w4) \<Rightarrow> (Inr d, w4)
             | (Rejected retryError, w4) \<Rightarrow> (Inl (api_error (upstream_message retryError)), w4))
          else (Inl (api_error (upstream_message e)), w3))"
    by (simp add: bearer_truthy w2_def)
  show "(\<forall>t2. login_reply b (n + 1) (login_call cfg) = Resolved (Some t2) \<and> t2 \<noteq> [] \<longrightarrow>
           calls w' = calls w1 @
             [c1, login_call cfg, api_call cfg endpoint opts (Some (''Bearer '' @ t2))] \<and>
           authToken w' = Some t2 \<and>
           (\<forall>d. api_reply b (n + 2) (api_call cfg endpoint opts (Some (''Bearer '' @ t2))) = Resolved d
                 \<longrightarrow> r = Inr d) \<and>
           (\<forall>e2. api_reply b (n + 2) (api_call cfg endpoint opts (Some (''Bearer '' @ t2))) = Rejected e2
                 \<longrightarrow> r = Inl (api_error (upstream_message e2)))) \<and>
        (\<forall>le. login_reply b (n + 1) (login_call cfg) = Rejected le \<longrightarrow>
           r = Inl (api_error (''Authentication failed: '' @ upstream_message le)) \<and>
           calls w' = calls w1 @ [c1, login_call cfg] \<and>
           authToken w' = None \<and> authExpiry w' = None) \<and>
        (\<forall>t2. login_reply b (n + 1) (login_call cfg) = Resolved t2 \<and> \<not> truthy t2 \<longrightarrow>
           r = Inl (api_error (upstream_message e)) \<and>
           calls w' = calls w1 @ [c1, login_call cfg])"
  proof (intro conjI allI impI)
    fix le assume "login_reply b (n + 1) (login_call cfg) = Rejected le"
    with mode w2 have "getAuthToken cfg b w2 =
        (Inl (Error (''Authentication failed: '' @ upstream_message le)),
         w2\<lparr>now := now w2 + elapsed b (length (calls w2)), calls := calls w2 @ [login_call cfg]\<rparr>)"
      by (simp add: getAuthToken_login_failed)
    with unfold have "(r, w') = (Inl (api_error (''Authentication failed: '' @ upstream_message le)),
         w2\<lparr>now := now w2 + elapsed b (length (calls w2)), calls := calls w2 @ [login_call cfg]\<rparr>)"
      by simp
    then show "r = Inl (api_error (''Authentication failed: '' @ upstream_message le))"
      and "calls w' = calls w1 @ [c1, login_call cfg]"
      and "authToken w' = None" and "authExpiry w' = None"
      by (simp_all add: w2_def performed_simps)
  next
    fix t2 assume a: "login_reply b (n + 1) (login_call cfg) = Resolved t2 \<and> \<not> truthy t2"
    with mode w2 have "getAuthToken cfg b w2 =
        (Inr t2, \<lparr>authToken = t2,
                   authExpiry = Some (now w2 + elapsed b (length (calls w2)) + 3600000),
                   now = now w2 + elapsed b (length (calls w2)),
                   calls = calls w2 @ [login_call cfg]\<rparr>)"
      by (simp add: getAuthToken_login_ok)
    with unfold a have "(r, w') = (Inl (api_error (upstream_message e)),
        \<lparr>authToken = t2,
         authExpiry = Some (now w2 + elapsed b (length (calls w2)) + 3600000),
         now = now w2 + elapsed b (length (calls w2)),
         calls = calls w2 @ [login_call cfg]\<rparr>)"
      by simp
    then show "r = Inl (api_error (upstream_message e))"
      and "calls w' = calls w1 @ [c1, login_call cfg]"
      by (simp_all add: w2_def performed_simps)
  next
    fix t2 assume a: "login_reply b (n + 1) (login_call cfg) = Resolved (Some t2) \<and> t2 \<noteq> []"
    define w3 where "w3 = \<lparr>authToken = Some t2,
                   authExpiry = Some (now w2 + elapsed b (length (calls w2)) + 3600000),
                   now = now w2 + elapsed b (length (calls w2)),
                   calls = calls w2 @ [login_call cfg]\<rparr>"
    define c2 where "c2 = api_call cfg endpoint opts (Some (''Bearer '' @ t2))"
    from a mode w2 have "getAuthToken cfg b w2 = (Inr (Some t2), w3)"
      by (simp add: getAuthToken_login_ok w3_def)
    with unfold a have retry: "(r, w') =
       (case api_reply b (length (calls w3)) c2 of
          Resolved d \<Rightarrow> (Inr d, performed b c2 w3)
        | Rejected retryError \<Rightarrow> (Inl (api_error (upstream_message retryError)), performed b c2 w3))"
      by (simp add: bearer_truthy axios_def c2_def split: axios_result.splits)
    have len: "length (calls w3) = n + 2" by (simp add: w3_def w2_def performed_simps n)
    from retry have "w' = performed b c2 w3" by (simp split: axios_result.splits)
    then show "calls w' = calls w1 @ [c1, login_call cfg, api_call cfg endpoint opts (Some (''Bearer '' @ t2))]"
      and "authToken w' = Some t2"
      by (simp_all add: performed_simps w3_def w2_def c2_def)
    show "r = Inr d"
      if "api_reply b (n + 2) (api_call cfg endpoint opts (Some (''Bearer '' @ t2))) = Resolved d" for d
      using retry that by (simp add: len c2_def)
    show "r = Inl (api_error (upstream_message e2))"
      if "api_reply b (n + 2) (api_call cfg endpoint opts (Some (''Bearer '' @ t2))) = Rejected e2" for e2
      using retry that by (simp add: len c2_def)
  qed
qed


theorem baasixRequest_retries_once_witness:
  "fst (baasixRequest example_settings rejecting_backend ''/items/products'' no_options
          (initial_world 1000)) = Inl (api_error ''Token expired'') \<and>
   calls (snd (baasixRequest example_settings rejecting_backend ''/items/products'' no_options
          (initial_world 1000))) =
     [LoginCall ''http://localhost:8056/auth/login'' (Some ''a@b.com'') (Some ''x''),
      ApiCall ''http://localhost:8056'' ''/items/products'' None Undefined (Some ''Bearer tok''),
      LoginCall ''http://localhost:8056/auth/login'' (Some ''a@b.com'') (Some ''x''),
      ApiCall ''http://localhost:8056'' ''/items/products'' None Undefined (Some ''Bearer tok'')] \<and>
   fst (baasixRequest example_settings revoking_backend ''/items/products'' no_options
          (initial_world 1000)) = Inl (api_error ''Authentication failed: Invalid credentials'') \<and>
   calls (snd (baasixRequest example_settings revoking_backend ''/items/products'' no_options
          (initial_world 1000))) =
     [LoginCall ''http://localhost:8056/auth/login'' (Some ''a@b.com'') (Some ''x''),
      ApiCall ''http://localhost:8056'' ''/items/products'' None Undefined (Some ''Bearer tok''),
      LoginCall ''http://localhost:8056/auth/login'' (Some ''a@b.com'') (Some ''x'')] \<and>
   fst (baasixRequest token_settings rejecting_backend ''/items/products'' no_options
          (initial_world 1000)) = Inl (api_error ''Token expired'') \<and>
   calls (snd (baasixRequest token_settings rejecting_backend ''/items/products'' no_options
          (initial_world 1000))) =
     [ApiCall ''http://localhost:8056'' ''/items/products'' None Undefined (Some ''Bearer jwt'')]"
proof -
  have tok: "''tok'' \<noteq> []" "''jwt'' \<noteq> []" by simp_all
  have mode: "\<not> truthy (BAASIX_AUTH_TOKEN example_settings) \<and> truthy (BAASIX_EMAIL example_settings) \<and>
      truthy (BAASIX_PASSWORD example_settings) \<and> status unauthorized = Some 401"
    "truthy (BAASIX_AUTH_TOKEN token_settings)"
    by (simp_all add: example_settings_def token_settings_def unauthorized_def)
  have t1: "getAuthToken example_settings rejecting_backend (initial_world 1000) =
      (Inr (Some ''tok''), aged_world 1005)"
    by (simp add: getAuthToken_def example_settings_def rejecting_backend_def aged_world_def
        initial_world_def cache_valid_def axios_post_login_def performed_def)
  have t2: "getAuthToken example_settings revoking_backend (initial_world 1000) =
      (Inr (Some ''tok''), aged_world 1005)"
    by (simp add: getAuthToken_def example_settings_def revoking_backend_def aged_world_def
        initial_world_def cache_valid_def axios_post_login_def performed_def)
  have t3: "getAuthToken token_settings rejecting_backend (initial_world 1000) =
      (Inr (Some ''jwt''), initial_world 1000)"
    by (simp add: getAuthToken_def token_settings_def example_settings_def)
  have f1: "api_reply rejecting_backend n c = Rejected unauthorized" for n c
    by (simp add: rejecting_backend_def)
  have f2: "api_reply revoking_backend n c = Rejected unauthorized" for n c
    by (simp add: revoking_backend_def)
  have l1: "login_reply rejecting_backend (length (calls (aged_world 1005)) + 1)
      (login_call example_settings) = Resolved (Some ''tok'')"
    by (simp add: rejecting_backend_def)
  have l2: "login_reply revoking_backend (length (calls (aged_world 1005)) + 1)
      (login_call example_settings) = Rejected invalid_credentials"
    by (simp add: revoking_backend_def aged_world_def)
  note a = baasixRequest_retries_once [OF t1 tok(1) refl f1 refl prod.collapse,
      of "''/items/products''" no_options]
  note b = baasixRequest_retries_once [OF t2 tok(1) refl f2 refl prod.collapse,
      of "''/items/products''" no_options]
  note c = baasixRequest_retries_once [OF t3 tok(2) refl f1 refl prod.collapse,
      of "''/items/products''" no_options]
  from a mode(1) l1 f1
  have "fst (baasixRequest example_settings rejecting_backend ''/items/products'' no_options
          (initial_world 1000)) = Inl (api_error (upstream_message unauthorized)) \<and>
    calls (snd (baasixRequest example_settings rejecting_backend ''/items/products'' no_options
          (initial_world 1000))) = calls (aged_world 1005) @
       [api_call example_settings ''/items/products'' no_options (Some (''Bearer '' @ ''tok'')),
        login_call example_settings,
        api_call example_settings ''/items/products'' no_options (Some (''Bearer '' @ ''tok''))]"
    by blast
  moreover from b mode(1) l2
  have "fst (baasixRequest example_settings revoking_backend ''/items/products'' no_options
          (initial_world 1000)) =
      Inl (api_error (''Authentication failed: '' @ upstream_message invalid_credentials)) \<and>
    calls (snd (baasixRequest example_settings revoking_backend ''/items/products'' no_options
          (initial_world 1000))) = calls (aged_world 1005) @
       [api_call example_settings ''/items/products'' no_options (Some (''Bearer '' @ ''tok'')),
        login_call example_settings]"
    by blast
  moreover from c mode(2)
  have "fst (baasixRequest token_settings rejecting_backend ''/items/products'' no_options
          (initial_world 1000)) = Inl (api_error (upstream_message unauthorized)) \<and>
    calls (snd (baasixRequest token_settings rejecting_backend ''/items/products'' no_options
          (initial_world 1000))) = calls (initial_world 1000) @
       [api_call token_settings ''/items/products'' no_options (Some (''Bearer '' @ ''jwt''))]"
    by blast
  ultimately show ?thesis
    by (simp add: upstream_message_def unauthorized_def invalid_credentials_def aged_world_def
        initial_world_def api_call_def login_call_def example_settings_def token_settings_def
        no_options_def)
qed

text \<open>
  C1 as stated fails where the backend refuses the login that follows the 401: no fresh
  token is obtained and the request is issued once, not twice.
\<close>

theorem refresh_refused_counterexample:
  "api_reply revoking_backend 1
     (ApiCall ''http://localhost:8056'' ''/items/products'' None Undefined (Some ''Bearer tok'')) =
     Rejected unauthorized \<and>
   status unauthorized = Some 401 \<and>
   api_calls (snd (baasixRequest example_settings revoking_backend ''/items/products'' no_options
       (initial_world 1000))) =
     [ApiCall ''http://localhost:8056'' ''/items/products'' None Undefined (Some ''Bearer tok'')] \<and>
   baasixRequest example_settings revoking_backend ''/items/products'' no_options (initial_world 1000) =
     (Inl (api_error ''Authentication failed: Invalid credentials''),
      \<lparr>authToken = None, authExpiry = None, now = 1015,
       calls =
         [LoginCall ''http://localhost:8056/auth/login'' (Some ''a@b.com'') (Some ''x''),
          ApiCall ''http://localhost:8056'' ''/items/products'' None Undefined (Some ''Bearer tok''),
          LoginCall ''http://localhost:8056/auth/login'' (Some ''a@b.com'') (Some ''x'')]\<rparr>)"
  by (simp add: baasixRequest_def getAuthToken_def example_settings_def revoking_backend_def
      initial_world_def cache_valid_def axios_post_login_def performed_def axios_def
      unauthorized_def invalid_credentials_def bearer_def api_call_def no_options_def
      upstream_message_def api_calls_def)

section \<open>The retry scenario of baasix_list_items\<close>

lemma string_of_int_1_10: "string_of_int 1 = ''1''" "string_of_int 10 = ''10''"
  by (simp_all add: string_of_int_def digit_char_def)

lemma form_encode_page_limit:
  "form_encode [(''page'', ''1''), (''limit'', ''10'')] = ''page=1&limit=10''"
  by (simp add: form_encode_def form_encode_char_def)

lemma handleListItems_request:
  "handleListItems rt cfg b (Some [(''collection'', JStr c)]) w =
     via_request rt cfg b
       (Inr (''/items/'' @ c @ ''?'' @ URLSearchParams_toString rt [(''page'', ''1''), (''limit'', ''10'')],
             no_options)) w"
  by (simp add: handleListItems_def and_then_def destructure_def property_def with_default_def
      call_toString_def string_of_int_1_10)

lemma lookup_list_items: "map_of tool_handlers ''baasix_list_items'' = Some handleListItems"
  by (simp add: tool_handlers_def)

text \<open>
  C5 (amended). Start from a fresh process configured with email and password only and call
  \<open>baasix_list_items\<close> for a collection. Let the backend accept both login exchanges and
  answer the items request with 401 once and then with a body. The call succeeds with
  that body, and exactly two requests to the items endpoint have been made, the original
  and the retry, and exactly two login exchanges: the initial one and the one that
  refreshes the token after the 401.
\<close>

theorem list_items_retry_scenario:
  assumes mode: "\<not> truthy (BAASIX_AUTH_TOKEN cfg)" "truthy (BAASIX_EMAIL cfg)" "truthy (BAASIX_PASSWORD cfg)"
    and endpoint: "endpoint = ''/items/'' @ collection @ ''?'' @
                     URLSearchParams_toString rt [(''page'', ''1''), (''limit'', ''10'')]"
    and login0: "login_reply b 0 (login_call cfg) = Resolved (Some t1)" "t1 \<noteq> []"
    and api1: "api_reply b 1 (api_call cfg endpoint no_options (Some (''Bearer '' @ t1))) = Rejected e"
      "status e = Some 401"
    and login2: "login_reply b 2 (login_call cfg) = Resolved (Some t2)" "t2 \<noteq> []"
    and api3: "api_reply b 3 (api_call cfg endpoint no_options (Some (''Bearer '' @ t2))) = Resolved d"
    and result: "(r, w') = CallTool rt cfg b ''baasix_list_items'' (Some [(''collection'', JStr collection)])
                   (initial_world t)"
  shows "r = Inr (text_result rt d) \<and>
         api_calls w' = [api_call cfg endpoint no_options (Some (''Bearer '' @ t1)),
                         api_call cfg endpoint no_options (Some (''Bearer '' @ t2))] \<and>
         login_calls w' = [login_call cfg, login_call cfg]"
proof -
  define c1 where "c1 = api_call cfg endpoint no_options (Some (''Bearer '' @ t1))"
  define c2 where "c2 = api_call cfg endpoint no_options (Some (''Bearer '' @ t2))"
  define w1 where "w1 = \<lparr>authToken = Some t1,
      authExpiry = Some (t + elapsed b 0 + 3600000), now = t + elapsed b 0,
      calls = [login_call cfg]\<rparr>"
  have fresh: "\<not> cache_valid (initial_world t)"
    by (simp add: cache_valid_def initial_world_def)
  have "login_reply b (length (calls (initial_world t))) (login_call cfg) = Resolved (Some t1)"
    using login0(1) by (simp add: initial_world_def)
  from getAuthToken_login_ok [OF mode(1) fresh mode(2,3) this]
  have token: "getAuthToken cfg b (initial_world t) = (Inr (Some t1), w1)"
    by (simp add: initial_world_def w1_def)
  define w2 where "w2 = (performed b c1 w1)\<lparr>authToken := None, authExpiry := None\<rparr>"
  have w2: "\<not> cache_valid w2" "calls w2 = [login_call cfg, c1]"
    by (simp_all add: w2_def cleared_not_valid performed_simps w1_def)
  define w3 where "w3 = \<lparr>authToken = Some t2,
      authExpiry = Some (now w2 + elapsed b 2 + 3600000), now = now w2 + elapsed b 2,
      calls = [login_call cfg, c1, login_call cfg]\<rparr>"
  have "login_reply b (length (calls w2)) (login_call cfg) = Resolved (Some t2)"
    using login2(1) by (simp add: w2(2) numeral_2_eq_2)
  from getAuthToken_login_ok [OF mode(1) w2(1) mode(2,3) this]
  have refresh: "getAuthToken cfg b w2 = (Inr (Some t2), w3)"
    by (simp add: w3_def w2(2) numeral_2_eq_2)
  have tr: "truthy (authToken w1)" using login0(2) by (simp add: w1_def)
  have first: "api_reply b (length (calls w1)) (api_call cfg endpoint no_options (bearer (Some t1))) =
      Rejected e"
    using api1(1) login0(2) by (simp add: w1_def bearer_truthy)
  have w2eq: "(performed b (api_call cfg endpoint no_options (bearer (Some t1))) w1)
      \<lparr>authToken := None, authExpiry := None\<rparr> = w2"
    using login0(2) by (simp add: w2_def c1_def bearer_truthy)
  have retry: "api_reply b (length (calls w3)) c2 = Resolved d"
    using api3 by (simp add: w3_def c2_def numeral_3_eq_3)
  have "baasixRequest cfg b endpoint no_options (initial_world t) =
      (case getAuthToken cfg b w2 of
         (Inl retryError, w3) \<Rightarrow> (Inl (api_error (js_message retryError)), w3)
       | (Inr newToken, w3) \<Rightarrow>
           if truthy newToken then
             (case axios b (api_call cfg endpoint no_options (bearer newToken)) w3 of
                (Resolved d, w4) \<Rightarrow> (Inr d, w4)
              | (Rejected retryError, w4) \<Rightarrow> (Inl (api_error (upstream_message retryError)), w4))
           else (Inl (api_error (upstream_message e)), w3))"
    using baasixRequest_retry [OF token first api1(2) tr mode(1)] unfolding w2eq .
  also have "\<dots> = (Inr d, performed b c2 w3)"
    unfolding refresh using login2(2) retry by (simp add: bearer_truthy axios_def c2_def)
  finally have "baasixRequest cfg b endpoint no_options (initial_world t) = (Inr d, performed b c2 w3)" .
  with result have "(r, w') = (Inr (text_result rt d), performed b c2 w3)"
    by (simp add: CallTool_def switch_name_def lookup_list_items handleListItems_request
        via_request_def endpoint)
  then show ?thesis
    by (simp add: performed_simps w3_def api_calls_def login_calls_def c1_def c2_def
        api_call_def login_call_def)
qed

lemma list_items_run:
  "CallTool node_runtime example_settings expiring_backend ''baasix_list_items''
     (Some [(''collection'', JStr ''products'')]) (initial_world 1000) =
   (Inr (text_result node_runtime (JArr [])),
    \<lparr>authToken = Some ''tok'', authExpiry = Some 3601015, now = 1020,
     calls =
       [LoginCall ''http://localhost:8056/auth/login'' (Some ''a@b.com'') (Some ''x''),
        ApiCall ''http://localhost:8056'' ''/items/products?page=1&limit=10'' None Undefined
          (Some ''Bearer tok''),
        LoginCall ''http://localhost:8056/auth/login'' (Some ''a@b.com'') (Some ''x''),
        ApiCall ''http://localhost:8056'' ''/items/products?page=1&limit=10'' None Undefined
          (Some ''Bearer tok'')]\<rparr>)"
  by (simp add: CallTool_def switch_name_def lookup_list_items handleListItems_request
      via_request_def baasixRequest_def getAuthToken_def example_settings_def expiring_backend_def
      initial_world_def cache_valid_def axios_post_login_def performed_def axios_def
      unauthorized_def bearer_def api_call_def no_options_def node_runtime_def
      form_encode_page_limit)

theorem list_items_retry_scenario_witness:
  "fst (CallTool node_runtime example_settings expiring_backend ''baasix_list_items''
     (Some [(''collection'', JStr ''products'')]) (initial_world 1000)) =
     Inr (text_result node_runtime (JArr [])) \<and>
   api_calls (snd (CallTool node_runtime example_settings expiring_backend ''baasix_list_items''
     (Some [(''collection'', JStr ''products'')]) (initial_world 1000))) =
     [ApiCall ''http://localhost:8056'' ''/items/products?page=1&limit=10'' None Undefined
        (Some ''Bearer tok''),
      ApiCall ''http://localhost:8056'' ''/items/products?page=1&limit=10'' None Undefined
        (Some ''Bearer tok'')] \<and>
   login_calls (snd (CallTool node_runtime example_settings expiring_backend ''baasix_list_items''
     (Some [(''collection'', JStr ''products'')]) (initial_world 1000))) =
     [login_call example_settings, login_call example_settings]"
proof -
  obtain r w' where r: "(r, w') =
      CallTool node_runtime example_settings expiring_backend ''baasix_list_items''
        (Some [(''collection'', JStr ''products'')]) (initial_world 1000)"
    by (metis surj_pair)
  have mode: "\<not> truthy (BAASIX_AUTH_TOKEN example_settings)"
    "truthy (BAASIX_EMAIL example_settings)" "truthy (BAASIX_PASSWORD example_settings)"
    by (simp_all add: example_settings_def)
  have login: "login_reply expiring_backend 0 (login_call example_settings) = Resolved (Some ''tok'')"
    "login_reply expiring_backend 2 (login_call example_settings) = Resolved (Some ''tok'')"
    "''tok'' \<noteq> []"
    by (simp_all add: expiring_backend_def)
  have api: "api_reply expiring_backend 1 c = Rejected unauthorized" "status unauthorized = Some 401"
    "api_reply expiring_backend 3 c = Resolved (JArr [])" for c
    by (simp_all add: expiring_backend_def unauthorized_def)
  from list_items_retry_scenario [OF mode refl login(1,3) api(1,2) login(2,3) api(3) r]
  have "r = Inr (text_result node_runtime (JArr [])) \<and>
    api_calls w' =
      [api_call example_settings (''/items/'' @ ''products'' @ ''?'' @
          URLSearchParams_toString node_runtime [(''page'', ''1''), (''limit'', ''10'')])
         no_options (Some (''Bearer '' @ ''tok'')),
       api_call example_settings (''/items/'' @ ''products'' @ ''?'' @
          URLSearchParams_toString node_runtime [(''page'', ''1''), (''limit'', ''10'')])
         no_options (Some (''Bearer '' @ ''tok''))] \<and>
    login_calls w' = [login_call example_settings, login_call example_settings]" .
  then have "fst (r, w') = Inr (text_result node_runtime (JArr [])) \<and>
    api_calls (snd (r, w')) =
     [ApiCall ''http://localhost:8056'' ''/items/products?page=1&limit=10'' None Undefined
        (Some ''Bearer tok''),
      ApiCall ''http://localhost:8056'' ''/items/products?page=1&limit=10'' None Undefined
        (Some ''Bearer tok'')] \<and>
    login_calls (snd (r, w')) = [login_call example_settings, login_call example_settings]"
    by (simp add: api_call_def example_settings_def no_options_def node_runtime_def
        form_encode_page_limit)
  then show ?thesis unfolding r .
qed

text \<open>
  C5 as stated fails on its own scenario: the call succeeds after two requests to the
  items endpoint, but with two login exchanges, not one.
\<close>

theorem list_items_two_logins_counterexample:
  "fst (CallTool node_runtime example_settings expiring_backend ''baasix_list_items''
     (Some [(''collection'', JStr ''products'')]) (initial_world 1000)) =
     Inr \<lparr>content = [\<lparr>item_type = ''text'', item_text = Some ''[]''\<rparr>]\<rparr> \<and>
   length (api_calls (snd (CallTool node_runtime example_settings expiring_backend
     ''baasix_list_items'' (Some [(''collection'', JStr ''products'')]) (initial_world 1000)))) = 2 \<and>
   length (login_calls (snd (CallTool node_runtime example_settings expiring_backend
     ''baasix_list_items'' (Some [(''collection'', JStr ''products'')]) (initial_world 1000)))) = 2"
  unfolding list_items_run
  by (simp add: api_calls_def login_calls_def text_result_def stringify_2_def node_runtime_def)

section \<open>Properties of the dispatcher\<close>

lemma catalog_names: "map tool_name tools = map fst tool_handlers"
  by (simp add: tools_def tool_handlers_def)

lemma switch_name_unknown:
  "name \<notin> set (map tool_name tools) \<Longrightarrow>
   switch_name rt cfg b name args w = (Inl (McpError MethodNotFound (''Unknown tool: '' @ name)), w)"
  by (simp add: switch_name_def catalog_names map_of_eq_None_iff [THEN iffD2])

text \<open>
  C7. For every tool call whose name is not in the advertised catalog, the dispatcher
  throws \<open>McpError\<close> with code \<open>MethodNotFound\<close> and message \<open>Unknown tool: <name>\<close>, and
  the state is as before: no HTTP request has been issued and nothing has been cached.
\<close>

theorem unknown_tool_method_not_found:
  assumes "name \<notin> set (map tool_name tools)"
  shows "CallTool rt cfg b name args w =
           (Inl (McpError MethodNotFound (''Unknown tool: '' @ name)), w)"
  using assms by (simp add: CallTool_def switch_name_unknown)

theorem unknown_tool_method_not_found_witness:
  "''baasix_drop_database'' \<notin> set (map tool_name tools) \<and>
   CallTool node_runtime example_settings accepting_backend ''baasix_drop_database''
     (Some [(''collection'', JStr ''products'')]) (initial_world 1000) =
     (Inl (McpError MethodNotFound ''Unknown tool: baasix_drop_database''), initial_world 1000)"
proof -
  have h: "''baasix_drop_database'' \<notin> set (map tool_name tools)"
    by (simp add: tools_def)
  from unknown_tool_method_not_found [OF h] h show ?thesis by simp
qed

lemma CallTool_registered:
  assumes "map_of tool_handlers name = Some handler"
  shows "CallTool rt cfg b name args w =
           (case handler rt cfg b args w of
              (Inl e, w') \<Rightarrow> (Inl (McpError InternalError (''Tool execution failed: '' @ js_message e)), w')
            | (Inr r, w') \<Rightarrow> (Inr r, w'))"
  using assms by (simp add: CallTool_def switch_name_def split: prod.splits sum.splits)

text \<open>
  C6 (amended). The dispatcher checks no argument against the \<open>inputSchema\<close>. For every
  registered tool name and every arguments value, also one that omits a required field,
  the handler is run on the arguments as they are (a missing field reads as
  \<open>undefined\<close>): its result is the result of the call, and an error it throws becomes
  \<open>McpError\<close> with code \<open>InternalError\<close> and message \<open>Tool execution failed: ...\<close>. No call, for
  any name, ends in an \<open>McpError\<close> with code \<open>InvalidParams\<close>.
\<close>

theorem dispatch_without_validation:
  "(name \<in> set (map tool_name tools) \<longrightarrow>
      (\<exists>handler. map_of tool_handlers name = Some handler \<and>
         CallTool rt cfg b name args w =
           (case handler rt cfg b args w of
              (Inl e, w') \<Rightarrow>
                (Inl (McpError InternalError (''Tool execution failed: '' @ js_message e)), w')
            | (Inr r, w') \<Rightarrow> (Inr r, w')))) \<and>
   (\<forall>m. fst (CallTool rt cfg b name args w) \<noteq> Inl (McpError InvalidParams m))"
proof (intro conjI allI impI)
  assume "name \<in> set (map tool_name tools)"
  then obtain handler where h: "map_of tool_handlers name = Some handler"
    unfolding catalog_names by (cases "map_of tool_handlers name") (auto simp: map_of_eq_None_iff)
  from h CallTool_registered [OF h, of rt cfg b args w]
  show "\<exists>handler. map_of tool_handlers name = Some handler \<and>
         CallTool rt cfg b name args w =
           (case handler rt cfg b args w of
              (Inl e, w') \<Rightarrow>
                (Inl (McpError InternalError (''Tool execution failed: '' @ js_message e)), w')
            | (Inr r, w') \<Rightarrow> (Inr r, w'))"
    by blast
next
  fix m
  show "fst (CallTool rt cfg b name args w) \<noteq> Inl (McpError InvalidParams m)"
    by (simp add: CallTool_def switch_name_def split: prod.splits sum.splits option.splits thrown.splits)
qed

lemma lookup_get_schema: "map_of tool_handlers ''baasix_get_schema'' = Some handleGetSchema"
  by (simp add: tool_handlers_def)

lemma get_schema_without_collection:
  "handleGetSchema node_runtime example_settings accepting_backend (Some []) (initial_world 1000) =
     (Inr \<lparr>content = [\<lparr>item_type = ''text'', item_text = Some [CHR 0x22, CHR ''o'', CHR ''k'', CHR 0x22]\<rparr>]\<rparr>,
      \<lparr>authToken = Some ''tok'', authExpiry = Some 3601005, now = 1010,
       calls =
         [LoginCall ''http://localhost:8056/auth/login'' (Some ''a@b.com'') (Some ''x''),
          ApiCall ''http://localhost:8056'' ''/schemas/undefined'' None Undefined (Some ''Bearer tok'')]\<rparr>)"
  by (simp add: handleGetSchema_def and_then_def destructure_def property_def
      via_request_def baasixRequest_def getAuthToken_def example_settings_def accepting_backend_def
      initial_world_def cache_valid_def axios_post_login_def performed_def axios_def
      bearer_def api_call_def no_options_def node_runtime_def text_result_def stringify_2_def
      json_quote_def json_escape_def)

theorem dispatch_without_validation_witness:
  "''baasix_get_schema'' \<in> set (map tool_name tools) \<and>
   CallTool node_runtime example_settings accepting_backend ''baasix_get_schema'' (Some [])
       (initial_world 1000) =
     (Inr \<lparr>content = [\<lparr>item_type = ''text'', item_text = Some [CHR 0x22, CHR ''o'', CHR ''k'', CHR 0x22]\<rparr>]\<rparr>,
      \<lparr>authToken = Some ''tok'', authExpiry = Some 3601005, now = 1010,
       calls =
         [LoginCall ''http://localhost:8056/auth/login'' (Some ''a@b.com'') (Some ''x''),
          ApiCall ''http://localhost:8056'' ''/schemas/undefined'' None Undefined (Some ''Bearer tok'')]\<rparr>) \<and>
   fst (CallTool node_runtime example_settings accepting_backend ''baasix_get_schema'' (Some [])
       (initial_world 1000)) \<noteq> Inl (McpError InvalidParams ''Invalid arguments'')"
proof -
  have registered: "''baasix_get_schema'' \<in> set (map tool_name tools)"
    by (simp add: tools_def)
  from dispatch_without_validation [of "''baasix_get_schema''" node_runtime example_settings
      accepting_backend "Some []" "initial_world 1000"] registered
  show ?thesis
    by (simp add: lookup_get_schema get_schema_without_collection)
qed

text \<open>
  C6 as stated fails: \<open>baasix_get_schema\<close> requires \<open>collection\<close>; called with an empty
  arguments object its handler runs, requests \<open>/schemas/undefined\<close> from the backend and
  returns the response.
\<close>

theorem missing_required_field_counterexample:
  "required_of ''baasix_get_schema'' = Some [''collection''] \<and>
   map_of ([] :: (string \<times> jsval) list) ''collection'' = None \<and>
   CallTool node_runtime example_settings accepting_backend ''baasix_get_schema'' (Some [])
       (initial_world 1000) =
     (Inr \<lparr>content = [\<lparr>item_type = ''text'', item_text = Some [CHR 0x22, CHR ''o'', CHR ''k'', CHR 0x22]\<rparr>]\<rparr>,
      \<lparr>authToken = Some ''tok'', authExpiry = Some 3601005, now = 1010,
       calls =
         [LoginCall ''http://localhost:8056/auth/login'' (Some ''a@b.com'') (Some ''x''),
          ApiCall ''http://localhost:8056'' ''/schemas/undefined'' None Undefined (Some ''Bearer tok'')]\<rparr>)"
  by (simp add: required_of_def tools_def CallTool_def switch_name_def lookup_get_schema
      get_schema_without_collection)

section \<open>The authentication tools\<close>

lemma lookup_auth_status: "map_of tool_handlers ''baasix_auth_status'' = Some handleAuthStatus"
  by (simp add: tool_handlers_def)

lemma text_result_object:
  "text_result rt (JObj body) =
     \<lparr>content = [\<lparr>item_type = ''text'', item_text = Some (JSON_stringify_2 rt (JObj body))\<rparr>]\<rparr>"
  by (simp add: text_result_def stringify_2_def)

text \<open>
  C10. A call of \<open>baasix_auth_status\<close> never ends in an error, whatever the configuration,
  the backend and the state: it returns one content element of type \<open>text\<close> whose text is
  the serialisation of an object. When \<open>getAuthToken\<close> fails (no authentication method, or
  a refused login) or the expiry cannot be formatted, the object carries the message of
  the caught error under \<open>error\<close>; otherwise it reports the authentication status.
\<close>

theorem auth_status_never_fails:
  "\<exists>body. CallTool rt cfg b ''baasix_auth_status'' args w =
      (Inr \<lparr>content = [\<lparr>item_type = ''text'', item_text = Some (JSON_stringify_2 rt (JObj body))\<rparr>]\<rparr>,
       snd (getAuthToken cfg b w)) \<and>
     (case fst (getAuthToken cfg b w) of
        Inl error \<Rightarrow> map_of body ''error'' = Some (JStr (js_message error))
      | Inr token \<Rightarrow>
          (case expiry_string rt (snd (getAuthToken cfg b w)) ''N/A'' of
             Inl error \<Rightarrow> map_of body ''error'' = Some (JStr (js_message error))
           | Inr expires \<Rightarrow>
               map_of body ''authenticated'' = Some (JBool (truthy token)) \<and>
               map_of body ''auto_login_expires'' = Some (JStr expires) \<and>
               map_of body ''error'' = None))"
proof (cases "getAuthToken cfg b w")
  case (Pair r w1)
  show ?thesis
  proof (cases r)
    case (Inl error)
    with Pair show ?thesis
      by (intro exI [where x = "[(''error'', JStr (js_message error)),
               (''auth_method'', JStr ''None''),
               (''manual_token_provided'', JBool (truthy (BAASIX_AUTH_TOKEN cfg))),
               (''configured_user'', JStr (or_else (BAASIX_EMAIL cfg) ''Not configured''))]"])
         (simp add: CallTool_registered [OF lookup_auth_status] handleAuthStatus_def
          auth_status_error_def text_result_object)
  next
    case (Inr token)
    show ?thesis
    proof (cases "expiry_string rt w1 ''N/A''")
      case (Inl error)
      with Pair Inr show ?thesis
        by (intro exI [where x = "[(''error'', JStr (js_message error)),
               (''auth_method'', JStr ''None''),
               (''manual_token_provided'', JBool (truthy (BAASIX_AUTH_TOKEN cfg))),
               (''configured_user'', JStr (or_else (BAASIX_EMAIL cfg) ''Not configured''))]"])
           (simp add: CallTool_registered [OF lookup_auth_status] handleAuthStatus_def
            auth_status_error_def text_result_object)
    next
      case expires: (Inr expires)
      with Pair Inr show ?thesis
        by (intro exI [where x = "[(''auth_method'', JStr
                      (if truthy (BAASIX_AUTH_TOKEN cfg) then ''Manual Token''
                       else if truthy (BAASIX_EMAIL cfg) then ''Auto-login'' else ''None'')),
                   (''configured_user'', JStr (or_else (BAASIX_EMAIL cfg) ''Not configured'')),
                   (''manual_token_provided'', JBool (truthy (BAASIX_AUTH_TOKEN cfg))),
                   (''authenticated'', JBool (truthy token)),
                   (''auto_login_expires'', JStr expires),
                   (''auto_login_valid'', JBool (cache_valid w1))]"])
           (simp add: CallTool_registered [OF lookup_auth_status] handleAuthStatus_def
            text_result_object)
    qed
  qed
qed


theorem auth_status_never_fails_witness:
  "CallTool node_runtime bare_settings accepting_backend ''baasix_auth_status'' None (initial_world 1000) =
     (Inr (auth_status_error node_runtime bare_settings (Error no_auth_method)), initial_world 1000) \<and>
   fst (getAuthToken bare_settings accepting_backend (initial_world 1000)) = Inl (Error no_auth_method)"
proof -
  have t: "getAuthToken bare_settings accepting_backend (initial_world 1000) =
      (Inl (Error no_auth_method), initial_world 1000)"
    by (simp add: getAuthToken_def bare_settings_def example_settings_def initial_world_def
        cache_valid_def)
  from auth_status_never_fails [of node_runtime bare_settings accepting_backend None "initial_world 1000"]
  obtain body where
    "CallTool node_runtime bare_settings accepting_backend ''baasix_auth_status'' None (initial_world 1000) =
      (Inr \<lparr>content = [\<lparr>item_type = ''text'',
                          item_text = Some (JSON_stringify_2 node_runtime (JObj body))\<rparr>]\<rparr>,
       initial_world 1000)"
    unfolding t by auto
  moreover have "CallTool node_runtime bare_settings accepting_backend ''baasix_auth_status'' None
      (initial_world 1000) =
     (Inr (auth_status_error node_runtime bare_settings (Error no_auth_method)), initial_world 1000)"
    by (simp add: CallTool_registered [OF lookup_auth_status] handleAuthStatus_def t)
  ultimately show ?thesis using t by simp
qed

lemma baasixRequest_explicit:
  assumes "truthy (BAASIX_AUTH_TOKEN cfg)"
  shows "baasixRequest cfg b endpoint opts w =
     (case api_reply b (length (calls w)) (api_call cfg endpoint opts (bearer (BAASIX_AUTH_TOKEN cfg))) of
        Resolved d \<Rightarrow>
          (Inr d, performed b (api_call cfg endpoint opts (bearer (BAASIX_AUTH_TOKEN cfg))) w)
      | Rejected e \<Rightarrow>
          (Inl (api_error (upstream_message e)),
           performed b (api_call cfg endpoint opts (bearer (BAASIX_AUTH_TOKEN cfg))) w))"
  using assms
  by (simp add: baasixRequest_def getAuthToken_explicit axios_def split: axios_result.splits)

lemma baasixRequest_explicit_cache:
  assumes "truthy (BAASIX_AUTH_TOKEN cfg)"
  shows "authToken (snd (baasixRequest cfg b endpoint opts w)) = authToken w \<and>
         authExpiry (snd (baasixRequest cfg b endpoint opts w)) = authExpiry w"
  by (simp add: baasixRequest_explicit [OF assms] performed_simps split: axios_result.splits)

lemma via_request_explicit_cache:
  assumes "truthy (BAASIX_AUTH_TOKEN cfg)"
  shows "authToken (snd (via_request rt cfg b request w)) = authToken w \<and>
         authExpiry (snd (via_request rt cfg b request w)) = authExpiry w"
proof (cases request)
  case (Inl e)
  then show ?thesis by (simp add: via_request_def)
next
  case (Inr rq)
  obtain endpoint opts where rq: "rq = (endpoint, opts)" by (cases rq)
  obtain r w' where r: "baasixRequest cfg b endpoint opts w = (r, w')" by (cases "baasixRequest cfg b endpoint opts w")
  with baasixRequest_explicit_cache [OF assms, of b endpoint opts w]
  have "authToken w' = authToken w \<and> authExpiry w' = authExpiry w" by simp
  with Inr rq r show ?thesis by (cases r) (simp_all add: via_request_def)
qed

lemma special_handlers_explicit_cache:
  assumes "truthy (BAASIX_AUTH_TOKEN cfg)"
  shows "authToken (snd (handleAuthStatus rt cfg b args w)) = authToken w \<and>
         authExpiry (snd (handleAuthStatus rt cfg b args w)) = authExpiry w"
    and "authToken (snd (handleRefreshAuth rt cfg b args w)) = authToken w \<and>
         authExpiry (snd (handleRefreshAuth rt cfg b args w)) = authExpiry w"
    and "authToken (snd (handleServerInfo rt cfg b args w)) = authToken w \<and>
         authExpiry (snd (handleServerInfo rt cfg b args w)) = authExpiry w"
proof -
  show "authToken (snd (handleAuthStatus rt cfg b args w)) = authToken w \<and>
         authExpiry (snd (handleAuthStatus rt cfg b args w)) = authExpiry w"
    using assms by (simp add: handleAuthStatus_def getAuthToken_explicit split: sum.splits)
  show "authToken (snd (handleRefreshAuth rt cfg b args w)) = authToken w \<and>
         authExpiry (snd (handleRefreshAuth rt cfg b args w)) = authExpiry w"
    using assms by (simp add: handleRefreshAuth_def)
  obtain r w' where r: "baasixRequest cfg b ''/utils/info'' no_options w = (r, w')"
    by (cases "baasixRequest cfg b ''/utils/info'' no_options w")
  with baasixRequest_explicit_cache [OF assms, of b "''/utils/info''" no_options w]
  have "authToken w' = authToken w \<and> authExpiry w' = authExpiry w" by simp
  with r show "authToken (snd (handleServerInfo rt cfg b args w)) = authToken w \<and>
         authExpiry (snd (handleServerInfo rt cfg b args w)) = authExpiry w"
    by (cases r) (simp_all add: handleServerInfo_def server_info_error_def split: sum.splits)
qed

lemma handlers_explicit_cache:
  assumes "truthy (BAASIX_AUTH_TOKEN cfg)" and "(name, handler) \<in> set tool_handlers"
  shows "authToken (snd (handler rt cfg b args w)) = authToken w \<and>
         authExpiry (snd (handler rt cfg b args w)) = authExpiry w"
proof -
  note special = special_handlers_explicit_cache [OF assms(1)]
  note via = via_request_explicit_cache [OF assms(1)]
  from assms(2) show ?thesis
    unfolding tool_handlers_def
    by (auto simp del: snd_conv fst_conv simp: special via handleListSchemas_def handleGetSchema_def handleCreateSchema_def handleUpdateSchema_def handleDeleteSchema_def handleAddIndex_def handleRemoveIndex_def handleCreateRelationship_def handleUpdateRelationship_def handleDeleteRelationship_def handleExportSchemas_def handleImportSchemas_def handleListItems_def handleGetItem_def handleCreateItem_def handleUpdateItem_def handleDeleteItem_def handleListFiles_def handleGetFileInfo_def handleDeleteFile_def handleGenerateReport_def handleGetStats_def handleListNotifications_def handleSendNotification_def handleMarkNotificationSeen_def handleGetSettings_def handleUpdateSettings_def handleListRoles_def handleListPermissions_def handleGetPermission_def handleGetPermissions_def handleCreatePermission_def handleUpdatePermission_def handleDeletePermission_def handleReloadPermissions_def handleUpdatePermissions_def handleSortItems_def handleRegisterUser_def handleLogin_def handleSendInvite_def handleVerifyInvite_def handleSendMagicLink_def handleGetUserTenants_def handleSwitchTenant_def handleLogout_def handleGetCurrentUser_def)
qed


lemma lookup_refresh_auth: "map_of tool_handlers ''baasix_refresh_auth'' = Some handleRefreshAuth"
  by (simp add: tool_handlers_def)

lemma CallTool_explicit_cache:
  assumes "truthy (BAASIX_AUTH_TOKEN cfg)"
  shows "authToken (snd (CallTool rt cfg b name args w)) = authToken w \<and>
         authExpiry (snd (CallTool rt cfg b name args w)) = authExpiry w"
proof (cases "map_of tool_handlers name")
  case None
  then show ?thesis by (simp add: CallTool_def switch_name_def)
next
  case (Some handler)
  then have "(name, handler) \<in> set tool_handlers" by (rule map_of_SomeD)
  from handlers_explicit_cache [OF assms this, of rt b args w]
  show ?thesis
    by (cases "handler rt cfg b args w"; cases "fst (handler rt cfg b args w)")
       (simp_all add: CallTool_registered [OF Some])
qed

text \<open>
  C3. In explicit-token mode (\<open>BAASIX_AUTH_TOKEN\<close> set) \<open>getAuthToken\<close> returns the explicit
  token as it is, whatever the cached state holds, and leaves the state as it was;
  \<open>baasix_refresh_auth\<close> reports that no refresh is needed and leaves the state as it was,
  so that \<open>getAuthToken\<close> returns the same value before and after it; and no tool call,
  whatever its name and arguments, changes \<open>authToken\<close> or \<open>authExpiry\<close>: the cache is
  neither populated nor cleared.
\<close>

theorem explicit_token_cache_untouched:
  assumes "truthy (BAASIX_AUTH_TOKEN cfg)"
  shows "getAuthToken cfg b w = (Inr (BAASIX_AUTH_TOKEN cfg), w) \<and>
         CallTool rt cfg b ''baasix_refresh_auth'' args w =
           (Inr (text_result rt (JObj
              [(''message'', JStr ''Using manual token (BAASIX_AUTH_TOKEN), no refresh needed''),
               (''auth_method'', JStr ''Manual Token'')])), w) \<and>
         fst (getAuthToken cfg b (snd (CallTool rt cfg b ''baasix_refresh_auth'' args w))) =
           fst (getAuthToken cfg b w) \<and>
         (\<forall>name args. authToken (snd (CallTool rt cfg b name args w)) = authToken w \<and>
                      authExpiry (snd (CallTool rt cfg b name args w)) = authExpiry w)"
proof (intro conjI allI)
  show token: "getAuthToken cfg b w = (Inr (BAASIX_AUTH_TOKEN cfg), w)"
    using assms by (rule getAuthToken_explicit)
  show refresh: "CallTool rt cfg b ''baasix_refresh_auth'' args w =
           (Inr (text_result rt (JObj
              [(''message'', JStr ''Using manual token (BAASIX_AUTH_TOKEN), no refresh needed''),
               (''auth_method'', JStr ''Manual Token'')])), w)"
    using assms by (simp add: CallTool_registered [OF lookup_refresh_auth] handleRefreshAuth_def)
  show "fst (getAuthToken cfg b (snd (CallTool rt cfg b ''baasix_refresh_auth'' args w))) =
           fst (getAuthToken cfg b w)"
    by (simp add: refresh)
  show "authToken (snd (CallTool rt cfg b name args w)) = authToken w" for name args
    using CallTool_explicit_cache [OF assms] by simp
  show "authExpiry (snd (CallTool rt cfg b name args w)) = authExpiry w" for name args
    using CallTool_explicit_cache [OF assms] by simp
qed

theorem explicit_token_cache_untouched_witness:
  "getAuthToken token_settings rejecting_backend (initial_world 1000) =
     (Inr (Some ''jwt''), initial_world 1000) \<and>
   snd (CallTool node_runtime token_settings rejecting_backend ''baasix_refresh_auth'' None
     (initial_world 1000)) = initial_world 1000 \<and>
   authToken (snd (CallTool node_runtime token_settings rejecting_backend ''baasix_list_items''
     (Some [(''collection'', JStr ''products'')]) (initial_world 1000))) = None \<and>
   authExpiry (snd (CallTool node_runtime token_settings rejecting_backend ''baasix_list_items''
     (Some [(''collection'', JStr ''products'')]) (initial_world 1000))) = None"
proof -
  have h: "truthy (BAASIX_AUTH_TOKEN token_settings)"
    by (simp add: token_settings_def)
  from explicit_token_cache_untouched [OF h, of rejecting_backend "initial_world 1000" node_runtime None]
  show ?thesis
    by (simp add: token_settings_def initial_world_def)
qed

section \<open>Configuration validation and startup\<close>

lemma createConfig_cases:
  "createConfig options h =
     (if isValid (validateConfig h (loadEnvironmentConfig options h))
      then Inr (loadEnvironmentConfig options h,
                map (\<lambda>warning. ''Warning: '' @ warning)
                  (warnings (validateConfig h (loadEnvironmentConfig options h))))
      else Inl (Error (''Configuration validation failed:'' @ [CHR 0x0A] @
                  join_with [CHR 0x0A] (errors (validateConfig h (loadEnvironmentConfig options h))))))"
  by (simp add: createConfig_def Let_def)

lemma isValid_iff:
  "isValid (validateConfig h config) \<longleftrightarrow>
     truthy (config ''BAASIX_URL'') \<and>
     (truthy (config ''BAASIX_AUTH_TOKEN'') \<or>
      truthy (config ''BAASIX_EMAIL'') \<and> truthy (config ''BAASIX_PASSWORD'')) \<and>
     (\<forall>u. config ''BAASIX_URL'' = Some u \<longrightarrow> URL_parses h u)"
  by (cases "config ''BAASIX_URL''") (auto simp: validateConfig_def Let_def)

text \<open>
  C9 (amended). A configuration without \<open>BAASIX_URL\<close>, with a \<open>BAASIX_URL\<close> that does not
  parse as a URL, or with neither an explicit token nor both email and password, is
  rejected by \<open>createConfig\<close>, which throws \<open>Configuration validation failed: ...\<close>. The
  startup of the server does not call \<open>createConfig\<close>: it loads the configuration with
  \<open>loadEnvironmentConfig\<close>, which validates nothing, and for every host it reaches the
  state in which tool calls are served, with the constants taken from what was loaded.
\<close>

theorem validation_not_at_startup:
  "(\<not> truthy (loadEnvironmentConfig options h ''BAASIX_URL'') \<or>
    (\<exists>u. loadEnvironmentConfig options h ''BAASIX_URL'' = Some u \<and> \<not> URL_parses h u) \<or>
    \<not> (truthy (loadEnvironmentConfig options h ''BAASIX_AUTH_TOKEN'') \<or>
       truthy (loadEnvironmentConfig options h ''BAASIX_EMAIL'') \<and>
       truthy (loadEnvironmentConfig options h ''BAASIX_PASSWORD''))
    \<longrightarrow> (\<exists>m. createConfig options h =
              Inl (Error (''Configuration validation failed:'' @ [CHR 0x0A] @ m)))) \<and>
   startMCPServer h t =
     Inr (module_settings (loadEnvironmentConfig default_options h), initial_world t)"
proof (rule conjI; (rule impI)?)
  assume "\<not> truthy (loadEnvironmentConfig options h ''BAASIX_URL'') \<or>
    (\<exists>u. loadEnvironmentConfig options h ''BAASIX_URL'' = Some u \<and> \<not> URL_parses h u) \<or>
    \<not> (truthy (loadEnvironmentConfig options h ''BAASIX_AUTH_TOKEN'') \<or>
       truthy (loadEnvironmentConfig options h ''BAASIX_EMAIL'') \<and>
       truthy (loadEnvironmentConfig options h ''BAASIX_PASSWORD''))"
  then have "\<not> isValid (validateConfig h (loadEnvironmentConfig options h))"
    unfolding isValid_iff by blast
  then show "\<exists>m. createConfig options h =
              Inl (Error (''Configuration validation failed:'' @ [CHR 0x0A] @ m))"
    by (simp add: createConfig_cases)
next
  show "startMCPServer h t =
     Inr (module_settings (loadEnvironmentConfig default_options h), initial_world t)"
    by (simp add: startMCPServer_def)
qed

lemma load_bad_url:
  "loadEnvironmentConfig default_options bad_url_host =
     [''BAASIX_EMAIL'' \<mapsto> ''admin@baasix.com'', ''BAASIX_PASSWORD'' \<mapsto> ''admin@123'',
      ''BAASIX_URL'' \<mapsto> ''not a url'']"
  by (simp add: loadEnvironmentConfig_def default_options_def url_only_host_def bad_url_host_def
      envVars_def override_from_def DEFAULT_CONFIG_def)

lemma load_blank_credentials:
  "loadEnvironmentConfig default_options blank_credentials_host =
     [''BAASIX_URL'' \<mapsto> ''http://localhost:8056'', ''BAASIX_EMAIL'' \<mapsto> [],
      ''BAASIX_PASSWORD'' \<mapsto> []]"
  by (simp add: loadEnvironmentConfig_def default_options_def blank_credentials_host_def
      envVars_def override_from_def DEFAULT_CONFIG_def or_else_def)

lemma has_scheme_examples: "\<not> has_scheme ''not a url''" "has_scheme ''http://localhost:8056''"
  by (simp_all add: has_scheme_def scheme_char_def)

lemma host_URL_parses:
  "URL_parses url_only_host = has_scheme" "URL_parses bad_url_host = has_scheme"
  "URL_parses blank_credentials_host = has_scheme"
  by (simp_all add: url_only_host_def bad_url_host_def blank_credentials_host_def)

theorem validation_not_at_startup_witness:
  "(\<exists>m. createConfig default_options bad_url_host =
      Inl (Error (''Configuration validation failed:'' @ [CHR 0x0A] @ m))) \<and>
   startMCPServer bad_url_host 1000 =
     Inr (\<lparr>BAASIX_URL = ''not a url'', BAASIX_AUTH_TOKEN = None,
           BAASIX_EMAIL = Some ''admin@baasix.com'', BAASIX_PASSWORD = Some ''admin@123''\<rparr>,
          initial_world 1000)"
proof -
  have "\<exists>u. loadEnvironmentConfig default_options bad_url_host ''BAASIX_URL'' = Some u \<and>
      \<not> URL_parses bad_url_host u"
    by (simp add: load_bad_url has_scheme_examples host_URL_parses)
  with validation_not_at_startup [of default_options bad_url_host 1000]
  show ?thesis
    by (simp add: load_bad_url module_settings_def or_else_def)
qed

text \<open>
  C9 as stated fails: with \<open>BAASIX_URL=not a url\<close>, and with a \<open>.env\<close> file that blanks email
  and password, \<open>validateConfig\<close> reports an error on what the server loads, and the
  server starts all the same.
\<close>

theorem startup_unvalidated_counterexample:
  "errors (validateConfig bad_url_host (loadEnvironmentConfig default_options bad_url_host)) =
     [''BAASIX_URL must be a valid URL''] \<and>
   startMCPServer bad_url_host 1000 =
     Inr (\<lparr>BAASIX_URL = ''not a url'', BAASIX_AUTH_TOKEN = None,
           BAASIX_EMAIL = Some ''admin@baasix.com'', BAASIX_PASSWORD = Some ''admin@123''\<rparr>,
          initial_world 1000) \<and>
   errors (validateConfig blank_credentials_host
       (loadEnvironmentConfig default_options blank_credentials_host)) =
     [''Either BAASIX_AUTH_TOKEN or both BAASIX_EMAIL and BAASIX_PASSWORD must be provided''] \<and>
   startMCPServer blank_credentials_host 1000 =
     Inr (\<lparr>BAASIX_URL = ''http://localhost:8056'', BAASIX_AUTH_TOKEN = None,
           BAASIX_EMAIL = Some [], BAASIX_PASSWORD = Some []\<rparr>,
          initial_world 1000)"
  by (simp add: startMCPServer_def load_bad_url load_blank_credentials validateConfig_def
      module_settings_def or_else_def has_scheme_examples host_URL_parses)

section \<open>Tools without an authentication method\<close>

lemma engine_only_Inr: "engine_only (Inr x)"
  by (simp add: engine_only_def)

lemma engine_only_EngineError: "engine_only (Inl (EngineError e))"
  by (simp add: engine_only_def)

lemma ToString_no_Error:
  "ToString v \<noteq> Inl (Error m)" "join_elements xs \<noteq> Inl (Error m)"
proof (induction v and xs arbitrary: m and m rule: ToString_join_elements.induct)
  case (9 x xs)
  show ?case
  proof (cases "x = Undefined \<or> x = Null")
    case True
    with 9 show ?thesis by (auto split: sum.splits)
  next
    case False
    with 9 show ?thesis by (cases "ToString x") (auto split: sum.splits)
  qed
qed auto

lemma engine_only_ToString: "engine_only (ToString v)" "engine_only (join_elements xs)"
  using ToString_no_Error(1) [of v] ToString_no_Error(2) [of xs]
  by (auto simp: engine_only_def split: sum.splits js_error.splits)

lemma engine_only_call_toString: "engine_only (call_toString name v)"
  using engine_only_ToString(1) [of v]
  by (cases v) (auto simp: call_toString_def engine_only_def)

lemma engine_only_call_join: "engine_only (call_join name v)"
  using engine_only_ToString(2)
  by (cases v) (auto simp: call_join_def engine_only_def)

lemma engine_only_destructure: "engine_only (destructure first args)"
  by (cases args) (auto simp: destructure_def engine_only_def)

lemma engine_only_and_then:
  "engine_only r \<Longrightarrow> (\<And>x. engine_only (f x)) \<Longrightarrow> engine_only (and_then r f)"
  by (cases r) (auto simp: and_then_def engine_only_def)

lemma engine_only_if:
  "engine_only x \<Longrightarrow> engine_only y \<Longrightarrow> engine_only (if c then x else y)"
  by simp

lemma engine_only_build_params:
  "engine_only (build_params [])"
  "engine_only v \<Longrightarrow> engine_only (build_params rest) \<Longrightarrow>
     engine_only (build_params ((guard, key, v) # rest))"
  by (auto simp: engine_only_def split: sum.splits js_error.splits)

lemmas engine_only_intros =
  engine_only_Inr engine_only_ToString engine_only_call_toString engine_only_call_join
  engine_only_destructure engine_only_and_then engine_only_if engine_only_build_params

lemma baasixRequest_no_auth:
  assumes "\<not> truthy (BAASIX_AUTH_TOKEN cfg)"
    and "\<not> (truthy (BAASIX_EMAIL cfg) \<and> truthy (BAASIX_PASSWORD cfg))"
    and "\<not> cache_valid w"
  shows "baasixRequest cfg b endpoint opts w = (Inl (Error no_auth_method), w)"
  using assms by (simp add: baasixRequest_def getAuthToken_none)

lemma via_request_no_auth:
  assumes "\<not> truthy (BAASIX_AUTH_TOKEN cfg)"
    and "\<not> (truthy (BAASIX_EMAIL cfg) \<and> truthy (BAASIX_PASSWORD cfg))"
    and "\<not> cache_valid w"
    and "engine_only request"
  shows "fails_unauthenticated (via_request rt cfg b request w) w"
proof (cases request)
  case (Inl e)
  with assms(4) show ?thesis
    by (cases e) (simp_all add: via_request_def fails_unauthenticated_def engine_only_def)
next
  case (Inr rq)
  then show ?thesis
    by (cases rq)
       (simp add: via_request_def fails_unauthenticated_def baasixRequest_no_auth [OF assms(1-3)])
qed


lemma handlers_no_auth_all:
  assumes "\<not> truthy (BAASIX_AUTH_TOKEN cfg)"
    and "\<not> (truthy (BAASIX_EMAIL cfg) \<and> truthy (BAASIX_PASSWORD cfg))"
    and "\<not> cache_valid w"
  shows "list_all (\<lambda>(name, handler).
           name \<in> set self_reporting_tools \<or> fails_unauthenticated (handler rt cfg b args w) w)
         tool_handlers"
  unfolding tool_handlers_def list.pred_inject prod.case
  by (intro conjI TrueI;
      ((rule disjI2, unfold handleListSchemas_def handleGetSchema_def handleCreateSchema_def handleUpdateSchema_def handleDeleteSchema_def handleAddIndex_def handleRemoveIndex_def handleCreateRelationship_def handleUpdateRelationship_def handleDeleteRelationship_def handleExportSchemas_def handleImportSchemas_def handleListItems_def handleGetItem_def handleCreateItem_def handleUpdateItem_def handleDeleteItem_def handleListFiles_def handleGetFileInfo_def handleDeleteFile_def handleGenerateReport_def handleGetStats_def handleListNotifications_def handleSendNotification_def handleMarkNotificationSeen_def handleGetSettings_def handleUpdateSettings_def handleListRoles_def handleListPermissions_def handleGetPermission_def handleGetPermissions_def handleCreatePermission_def handleUpdatePermission_def handleDeletePermission_def handleReloadPermissions_def handleUpdatePermissions_def handleSortItems_def handleRegisterUser_def handleLogin_def handleSendInvite_def handleVerifyInvite_def handleSendMagicLink_def handleGetUserTenants_def handleSwitchTenant_def handleLogout_def handleGetCurrentUser_def,
        rule via_request_no_auth [OF assms], intro engine_only_intros)
       | (rule disjI1, simp add: self_reporting_tools_def)
       | simp))

lemma handlers_no_auth:
  assumes "\<not> truthy (BAASIX_AUTH_TOKEN cfg)"
    and "\<not> (truthy (BAASIX_EMAIL cfg) \<and> truthy (BAASIX_PASSWORD cfg))"
    and "\<not> cache_valid w"
    and "(name, handler) \<in> set tool_handlers" and "name \<notin> set self_reporting_tools"
  shows "fails_unauthenticated (handler rt cfg b args w) w"
  using handlers_no_auth_all [OF assms(1-3), of rt b args] assms(4,5)
  by (auto simp: list_all_iff)


lemma load_url_only:
  assumes "\<not> existsSync h (root_env_path h)" "process_env h = [''BAASIX_URL'' \<mapsto> url]" "url \<noteq> []"
  shows "module_settings (loadEnvironmentConfig default_options h) =
     \<lparr>BAASIX_URL = url, BAASIX_AUTH_TOKEN = None,
      BAASIX_EMAIL = Some ''admin@baasix.com'', BAASIX_PASSWORD = Some ''admin@123''\<rparr>"
  using assms
  by (simp add: loadEnvironmentConfig_def default_options_def envVars_def override_from_def
      DEFAULT_CONFIG_def module_settings_def or_else_def)

lemma CallTool_no_auth:
  assumes "\<not> truthy (BAASIX_AUTH_TOKEN cfg)"
    and "\<not> (truthy (BAASIX_EMAIL cfg) \<and> truthy (BAASIX_PASSWORD cfg))"
    and "\<not> cache_valid w"
    and "name \<in> set (map tool_name tools)" and "name \<notin> set self_reporting_tools"
  shows "snd (CallTool rt cfg b name args w) = w \<and>
      (fst (CallTool rt cfg b name args w) =
         Inl (McpError InternalError (''Tool execution failed: '' @ no_auth_method)) \<or>
       (\<exists>e. fst (CallTool rt cfg b name args w) =
         Inl (McpError InternalError (''Tool execution failed: '' @ engine_message e))))"
proof -
  from assms(4) obtain handler where h: "map_of tool_handlers name = Some handler"
    unfolding catalog_names by (cases "map_of tool_handlers name") (auto simp: map_of_eq_None_iff)
  then have "(name, handler) \<in> set tool_handlers" by (rule map_of_SomeD)
  from handlers_no_auth [OF assms(1-3) this assms(5), of rt b args]
  have "snd (handler rt cfg b args w) = w"
    and "fst (handler rt cfg b args w) = Inl (Error no_auth_method) \<or>
         (\<exists>e. fst (handler rt cfg b args w) = Inl (EngineError e))"
    by (auto simp: fails_unauthenticated_def split: sum.splits js_error.splits)
  then show ?thesis
    by (cases "handler rt cfg b args w") (auto simp: CallTool_registered [OF h])
qed

text \<open>
  C8 (amended). When the environment sets \<open>BAASIX_URL\<close> only and there is no \<open>.env\<close> file,
  the server starts with the default email \<open>admin@baasix.com\<close> and password \<open>admin@123\<close>,
  and the first request for a token is a login exchange with them. When the constants
  hold neither an explicit token nor both email and password (and no valid token is
  cached), every tool of the catalog other than \<open>baasix_auth_status\<close>,
  \<open>baasix_refresh_auth\<close> and \<open>baasix_server_info\<close> fails without any HTTP call, with
  \<open>InternalError\<close> and the message \<open>Tool execution failed: No authentication method
  available ...\<close>, unless the handler's own treatment of the arguments has thrown a
  \<open>TypeError\<close> before, which is reported the same way.
\<close>

theorem no_authentication_method_error:
  "(\<not> existsSync h (root_env_path h) \<and> process_env h = [''BAASIX_URL'' \<mapsto> url] \<and> url \<noteq> [] \<longrightarrow>
      startMCPServer h t =
        Inr (\<lparr>BAASIX_URL = url, BAASIX_AUTH_TOKEN = None,
              BAASIX_EMAIL = Some ''admin@baasix.com'', BAASIX_PASSWORD = Some ''admin@123''\<rparr>,
             initial_world t) \<and>
      calls (snd (getAuthToken (module_settings (loadEnvironmentConfig default_options h)) b
                    (initial_world t))) =
        [LoginCall (url @ ''/auth/login'') (Some ''admin@baasix.com'') (Some ''admin@123'')]) \<and>
   (\<not> truthy (BAASIX_AUTH_TOKEN cfg) \<and>
    \<not> (truthy (BAASIX_EMAIL cfg) \<and> truthy (BAASIX_PASSWORD cfg)) \<and>
    \<not> cache_valid w \<and>
    name \<in> set (map tool_name tools) \<and> name \<notin> set self_reporting_tools \<longrightarrow>
      snd (CallTool rt cfg b name args w) = w \<and>
      (fst (CallTool rt cfg b name args w) =
         Inl (McpError InternalError (''Tool execution failed: '' @ no_auth_method)) \<or>
       (\<exists>e. fst (CallTool rt cfg b name args w) =
         Inl (McpError InternalError (''Tool execution failed: '' @ engine_message e)))))"
proof (rule conjI; rule impI)
  assume a: "\<not> existsSync h (root_env_path h) \<and> process_env h = [''BAASIX_URL'' \<mapsto> url] \<and> url \<noteq> []"
  then have s: "module_settings (loadEnvironmentConfig default_options h) =
     \<lparr>BAASIX_URL = url, BAASIX_AUTH_TOKEN = None,
      BAASIX_EMAIL = Some ''admin@baasix.com'', BAASIX_PASSWORD = Some ''admin@123''\<rparr>"
    by (simp add: load_url_only)
  have "\<not> cache_valid (initial_world t)" by (simp add: cache_valid_def initial_world_def)
  from getAuthToken_login_call [OF _ this, of "module_settings (loadEnvironmentConfig default_options h)" b]
  have "calls (snd (getAuthToken (module_settings (loadEnvironmentConfig default_options h)) b
                    (initial_world t))) =
        [LoginCall (url @ ''/auth/login'') (Some ''admin@baasix.com'') (Some ''admin@123'')]"
    by (simp add: s login_call_def initial_world_def)
  with s show "startMCPServer h t =
        Inr (\<lparr>BAASIX_URL = url, BAASIX_AUTH_TOKEN = None,
              BAASIX_EMAIL = Some ''admin@baasix.com'', BAASIX_PASSWORD = Some ''admin@123''\<rparr>,
             initial_world t) \<and>
      calls (snd (getAuthToken (module_settings (loadEnvironmentConfig default_options h)) b
                    (initial_world t))) =
        [LoginCall (url @ ''/auth/login'') (Some ''admin@baasix.com'') (Some ''admin@123'')]"
    by (simp add: startMCPServer_def)
next
  assume "\<not> truthy (BAASIX_AUTH_TOKEN cfg) \<and>
    \<not> (truthy (BAASIX_EMAIL cfg) \<and> truthy (BAASIX_PASSWORD cfg)) \<and>
    \<not> cache_valid w \<and>
    name \<in> set (map tool_name tools) \<and> name \<notin> set self_reporting_tools"
  then show "snd (CallTool rt cfg b name args w) = w \<and>
      (fst (CallTool rt cfg b name args w) =
         Inl (McpError InternalError (''Tool execution failed: '' @ no_auth_method)) \<or>
       (\<exists>e. fst (CallTool rt cfg b name args w) =
         Inl (McpError InternalError (''Tool execution failed: '' @ engine_message e))))"
    using CallTool_no_auth by blast
qed


lemma start_url_only: "startMCPServer url_only_host 1000 = Inr (default_settings, initial_world 1000)"
  by (simp add: startMCPServer_def default_settings_def url_only_host_def load_url_only)

theorem no_authentication_method_error_witness:
  "startMCPServer url_only_host 1000 = Inr (default_settings, initial_world 1000) \<and>
   CallTool node_runtime bare_settings accepting_backend ''baasix_list_items''
       (Some [(''collection'', JStr ''products'')]) (initial_world 1000) =
     (Inl (McpError InternalError (''Tool execution failed: '' @ no_auth_method)), initial_world 1000)"
proof -
  have host: "\<not> existsSync url_only_host (root_env_path url_only_host) \<and>
      process_env url_only_host = [''BAASIX_URL'' \<mapsto> ''http://localhost:8056''] \<and>
      ''http://localhost:8056'' \<noteq> []"
    by (simp add: url_only_host_def)
  have bare: "\<not> truthy (BAASIX_AUTH_TOKEN bare_settings) \<and>
      \<not> (truthy (BAASIX_EMAIL bare_settings) \<and> truthy (BAASIX_PASSWORD bare_settings)) \<and>
      \<not> cache_valid (initial_world 1000) \<and>
      ''baasix_list_items'' \<in> set (map tool_name tools) \<and>
      ''baasix_list_items'' \<notin> set self_reporting_tools"
    by (simp add: bare_settings_def example_settings_def cache_valid_def initial_world_def
        tools_def self_reporting_tools_def)
  have run: "CallTool node_runtime bare_settings accepting_backend ''baasix_list_items''
       (Some [(''collection'', JStr ''products'')]) (initial_world 1000) =
     (Inl (McpError InternalError (''Tool execution failed: '' @ no_auth_method)), initial_world 1000)"
    using bare
    by (simp add: CallTool_registered [OF lookup_list_items] handleListItems_request
        via_request_def baasixRequest_no_auth)
  from no_authentication_method_error [where h = url_only_host and url = "''http://localhost:8056''"
      and t = 1000 and cfg = bare_settings and w = "initial_world 1000"
      and name = "''baasix_list_items''" and rt = node_runtime and b = accepting_backend
      and args = "Some [(''collection'', JStr ''products'')]"] host bare run
  show ?thesis by (simp add: default_settings_def)
qed

text \<open>
  C8 as stated fails: with \<open>BAASIX_URL\<close> alone in the environment, \<open>baasix_list_items\<close>
  logs in with the default credentials and, on a backend that accepts them, succeeds.
\<close>

theorem default_credentials_counterexample:
  "startMCPServer url_only_host 1000 = Inr (default_settings, initial_world 1000) \<and>
   CallTool node_runtime default_settings accepting_backend ''baasix_list_items''
       (Some [(''collection'', JStr ''products'')]) (initial_world 1000) =
     (Inr \<lparr>content = [\<lparr>item_type = ''text'', item_text = Some [CHR 0x22, CHR ''o'', CHR ''k'', CHR 0x22]\<rparr>]\<rparr>,
      \<lparr>authToken = Some ''tok'', authExpiry = Some 3601005, now = 1010,
       calls =
         [LoginCall ''http://localhost:8056/auth/login'' (Some ''admin@baasix.com'') (Some ''admin@123''),
          ApiCall ''http://localhost:8056'' ''/items/products?page=1&limit=10'' None Undefined
            (Some ''Bearer tok'')]\<rparr>)"
  by (simp add: start_url_only CallTool_registered [OF lookup_list_items] handleListItems_request
      via_request_def baasixRequest_def getAuthToken_def default_settings_def accepting_backend_def
      initial_world_def cache_valid_def axios_post_login_def performed_def axios_def
      bearer_def api_call_def no_options_def node_runtime_def form_encode_page_limit
      text_result_def stringify_2_def json_quote_def json_escape_def)

end
